theory Spec2Isabelle
  imports Complex_Main "HOL-Library.Multiset"
begin

section \<open>Attendance tracker: the data model of \<open>api/alexa.js\<close>\<close>

text \<open>
  The skill keeps one attendance document per attendance key in a document store and
  derives percentages from it. The functions below follow \<open>src/api/alexa.js\<close>
  function by function and keep its names.

  Conventions of the embedding.
  \<^item> A date string \<open>YYYY-MM-DD\<close> is represented by its day number (days since
    1970-01-01). Equality of date strings is equality of day numbers, and for four-digit
    years the string comparison \<open>dateStr > today\<close> is the comparison of day numbers.
  \<^item> The process runs in UTC, so \<open>new Date(dateStr).getDay()\<close> is the weekday of
    that calendar date and \<open>getFormattedDate()\<close> is the current UTC date.
  \<^item> A creation timestamp (\<open>createdAt\<close>, an ISO string read back with
    \<open>new Date\<close>) is represented by its number of milliseconds.
  \<^item> Strings are ASCII; \<open>toLowerCase\<close> changes the letters A to Z only.
  \<^item> A field that JavaScript may leave \<open>undefined\<close> is an \<open>option\<close>. A stored
    session has a name, a code and a creation time, as every session that
    \<open>saveSession\<close> writes has.
  \<^item> Every \<open>await\<close> is a sequential step, and the calls to the store succeed; the
    \<open>catch\<close> branches of the handlers are not modelled.
\<close>

subsection \<open>Strings\<close>

definition lowerChar :: "char \<Rightarrow> char" where
  "lowerChar c =
     (case map_of (zip ''ABCDEFGHIJKLMNOPQRSTUVWXYZ'' ''abcdefghijklmnopqrstuvwxyz'') c of
        Some l \<Rightarrow> l
      | None \<Rightarrow> c)"

definition toLowerCase :: "string \<Rightarrow> string" where
  "toLowerCase s = map lowerChar s"

text \<open>\<open>s.substring(a, b)\<close> for \<open>a \<le> b\<close>.\<close>

definition substring :: "nat \<Rightarrow> nat \<Rightarrow> string \<Rightarrow> string" where
  "substring a b s = take (b - a) (drop a s)"

text \<open>The characters that \<open>replace(/[^a-z0-9]/g, '')\<close> keeps.\<close>

definition isAlnumLower :: "char \<Rightarrow> bool" where
  "isAlnumLower c = (c \<in> set ''abcdefghijklmnopqrstuvwxyz0123456789'')"

text \<open>
  \<open>generateSessionCode\<close>: the second argument is the string
  \<open>Math.random().toString(36)\<close>, of which the source takes the characters 2 to 5.
\<close>

definition generateSessionCode :: "string \<Rightarrow> string \<Rightarrow> string" where
  "generateSessionCode sessionName rnd =
     (let base = substring 0 8 (filter isAlnumLower (toLowerCase sessionName));
          random = substring 2 6 rnd
      in base @ random)"

subsection \<open>Dates\<close>

type_synonym date = int

type_synonym timestamp = int

text \<open>The day number of a calendar date (proleptic Gregorian calendar).\<close>

definition daysFromCivil :: "int \<Rightarrow> int \<Rightarrow> int \<Rightarrow> date" where
  "daysFromCivil y m d =
     (let y' = (if m \<le> 2 then y - 1 else y);
          era = y' div 400;
          yoe = y' - era * 400;
          doy = (153 * (if m > 2 then m - 3 else m + 9) + 2) div 5 + d - 1;
          doe = yoe * 365 + yoe div 4 - yoe div 100 + doy
      in era * 146097 + doe - 719468)"

text \<open>\<open>new Date(dateStr).getDay()\<close>: 0 is Sunday; 1970-01-01 was a Thursday.\<close>

definition getDay :: "date \<Rightarrow> nat" where
  "getDay d = nat ((d + 4) mod 7)"

text \<open>\<open>new Date(year, month, 0).getDate()\<close> for a month number from 1 to 12.\<close>

definition isLeapYear :: "int \<Rightarrow> bool" where
  "isLeapYear y = (y mod 4 = 0 \<and> (y mod 100 \<noteq> 0 \<or> y mod 400 = 0))"

definition daysInMonth :: "int \<Rightarrow> int \<Rightarrow> nat" where
  "daysInMonth y m =
     (if m = 2 then (if isLeapYear y then 29 else 28)
      else if m = 4 \<or> m = 6 \<or> m = 9 \<or> m = 11 then 30
      else 31)"

subsection \<open>Documents\<close>

record holiday =
  hdate :: date
  hname :: string

record session =
  name :: string
  code :: string
  startDate :: "date option"
  endDate :: "date option"
  createdAt :: timestamp
  isSelected :: bool

text \<open>
  The attendance document. The same record is the argument of \<open>updateUserData\<close>,
  where \<open>None\<close> is a field the update does not mention.
\<close>

record user_data =
  records :: "(date \<rightharpoonup> bool) option"
  holidays :: "holiday list option"
  notEnrolled :: "date list option"
  sessions :: "session list option"
  weeklyDaysOff :: "nat list option"
  updatedAt :: "timestamp option"

definition emptyDoc :: user_data where
  "emptyDoc = \<lparr>records = None, holidays = None, notEnrolled = None, sessions = None,
     weeklyDaysOff = None, updatedAt = None\<rparr>"

text \<open>The collection \<open>attendance\<close>, by attendance key.\<close>

type_synonym store = "string \<rightharpoonup> user_data"

definition getUserData :: "store \<Rightarrow> string \<Rightarrow> user_data" where
  "getUserData st attendanceKey =
     (case st attendanceKey of Some d \<Rightarrow> d | None \<Rightarrow> emptyDoc)"

definition orElse :: "'a option \<Rightarrow> 'a option \<Rightarrow> 'a option" where
  "orElse new old = (case new of Some v \<Rightarrow> Some v | None \<Rightarrow> old)"

text \<open>
  Modelled from the spec: the document store's \<open>set(updates, {merge: true})\<close> is the
  library's, not the repository's. Section 4.1 of the specification describes it as a
  shallow merge-upsert: a field of the update replaces the stored field as a whole, and
  a field the update does not mention stays. The properties of \<open>setDayStatus\<close>
  rest on this reading: under a merge that descends into the record map key by key, a
  key that \<open>setDayStatus\<close> deleted would stay in the stored map.
\<close>

definition mergeDoc :: "user_data \<Rightarrow> user_data \<Rightarrow> user_data" where
  "mergeDoc old upd =
     \<lparr>records = orElse (records upd) (records old),
      holidays = orElse (holidays upd) (holidays old),
      notEnrolled = orElse (notEnrolled upd) (notEnrolled old),
      sessions = orElse (sessions upd) (sessions old),
      weeklyDaysOff = orElse (weeklyDaysOff upd) (weeklyDaysOff old),
      updatedAt = orElse (updatedAt upd) (updatedAt old)\<rparr>"

definition updateUserData :: "store \<Rightarrow> string \<Rightarrow> user_data \<Rightarrow> store" where
  "updateUserData st attendanceKey updates =
     st(attendanceKey \<mapsto> mergeDoc (getUserData st attendanceKey) updates)"

subsection \<open>Day status\<close>

text \<open>
  The three membership tests of the source:
  \<open>userData.records && userData.records[date] !== undefined\<close>,
  \<open>userData.holidays && userData.holidays.some(h => h.date === date)\<close> and
  \<open>userData.notEnrolled && userData.notEnrolled.includes(date)\<close>.
\<close>

definition hasRecord :: "user_data \<Rightarrow> date \<Rightarrow> bool" where
  "hasRecord userData dt =
     (case records userData of None \<Rightarrow> False | Some r \<Rightarrow> r dt \<noteq> None)"

definition isHoliday :: "user_data \<Rightarrow> date \<Rightarrow> bool" where
  "isHoliday userData dt =
     (case holidays userData of None \<Rightarrow> False | Some hs \<Rightarrow> list_ex (\<lambda>h. hdate h = dt) hs)"

definition isNotEnrolled :: "user_data \<Rightarrow> date \<Rightarrow> bool" where
  "isNotEnrolled userData dt =
     (case notEnrolled userData of None \<Rightarrow> False | Some ds \<Rightarrow> dt \<in> set ds)"

datatype day_status = Present | Absent | Holiday string | NotEnrolled

definition getDayStatus :: "store \<Rightarrow> string \<Rightarrow> date \<Rightarrow> day_status option" where
  "getDayStatus st attendanceKey dt =
     (let userData = getUserData st attendanceKey in
      if hasRecord userData dt then
        (if the (records userData) dt = Some True then Some Present else Some Absent)
      else if isHoliday userData dt then
        (case List.find (\<lambda>h. hdate h = dt) (the (holidays userData)) of
           Some h \<Rightarrow> Some (Holiday (hname h))
         | None \<Rightarrow> None)
      else if isNotEnrolled userData dt then Some NotEnrolled
      else None)"

text \<open>\<open>existingStatus.status || existingStatus\<close>: the status as the handlers print it.\<close>

fun statusName :: "day_status \<Rightarrow> string" where
  "statusName Present = ''present''"
| "statusName Absent = ''absent''"
| "statusName (Holiday n) = ''holiday''"
| "statusName NotEnrolled = ''not-enrolled''"

text \<open>\<open>extraData.holidayName || 'Holiday'\<close>: a missing or empty name is falsy.\<close>

definition holidayNameOrDefault :: "string option \<Rightarrow> string" where
  "holidayNameOrDefault hn =
     (case hn of None \<Rightarrow> ''Holiday'' | Some n \<Rightarrow> if n = [] then ''Holiday'' else n)"

text \<open>
  \<open>setDayStatus\<close> reads the document, takes the date out of all three containers,
  applies the status and writes the three containers back with the server's timestamp.
  A status other than the four known ones applies nothing. The source returns
  \<open>{success: true}\<close> in every case; the model returns the store.
\<close>

definition setDayStatus ::
  "store \<Rightarrow> string \<Rightarrow> date \<Rightarrow> string \<Rightarrow> string option \<Rightarrow> timestamp \<Rightarrow> store" where
  "setDayStatus st attendanceKey dt status holidayName now =
     (let userData = getUserData st attendanceKey;
          records0 = (case records userData of None \<Rightarrow> Map.empty | Some r \<Rightarrow> r);
          holidays0 = (case holidays userData of None \<Rightarrow> [] | Some hs \<Rightarrow> hs);
          notEnrolled0 = (case notEnrolled userData of None \<Rightarrow> [] | Some ds \<Rightarrow> ds);
          records1 = records0(dt := None);
          holidays1 = filter (\<lambda>h. hdate h \<noteq> dt) holidays0;
          notEnrolled1 = filter (\<lambda>d. d \<noteq> dt) notEnrolled0;
          (records2, holidays2, notEnrolled2) =
            (if status = ''present'' then (records1(dt \<mapsto> True), holidays1, notEnrolled1)
             else if status = ''absent'' then (records1(dt \<mapsto> False), holidays1, notEnrolled1)
             else if status = ''holiday'' then
               (records1,
                holidays1 @ [\<lparr>hdate = dt, hname = holidayNameOrDefault holidayName\<rparr>],
                notEnrolled1)
             else if status = ''not-enrolled'' then (records1, holidays1, notEnrolled1 @ [dt])
             else (records1, holidays1, notEnrolled1))
      in updateUserData st attendanceKey
           \<lparr>records = Some records2, holidays = Some holidays2,
            notEnrolled = Some notEnrolled2, sessions = None, weeklyDaysOff = None,
            updatedAt = Some now\<rparr>)"

subsection \<open>Working days\<close>

text \<open>\<open>isNonWorkingDay\<close>: Sunday first, then the configured weekly days off.\<close>

definition isNonWorkingDay :: "date \<Rightarrow> user_data \<Rightarrow> bool" where
  "isNonWorkingDay dateStr userData =
     (let dayOfWeek = getDay dateStr in
      if dayOfWeek = 0 then True
      else
        (let daysOff = (case weeklyDaysOff userData of None \<Rightarrow> [] | Some ws \<Rightarrow> ws) in
         if dayOfWeek \<in> set daysOff then True else False))"

text \<open>\<open>userData.records && userData.records[dateStr] === true\<close>.\<close>

definition isPresent :: "user_data \<Rightarrow> date \<Rightarrow> bool" where
  "isPresent userData dt =
     (case records userData of None \<Rightarrow> False | Some r \<Rightarrow> r dt = Some True)"

text \<open>
  The source computes with IEEE 754 doubles: \<open>presentDays / totalWorkingDays\<close> is the
  double nearest to the quotient and the product with 100 is the double nearest to the
  product (ties to the even significand). \<open>toDouble\<close> is that rounding for a positive
  rational: with \<open>e\<close> the binary exponent of \<open>x\<close>, the value is scaled into
  \<open>[2^52, 2^53)\<close>, rounded to an integer and scaled back. The counters are far from
  the ends of the exponent range, so overflow and subnormal numbers do not arise.
\<close>

definition pow2 :: "int \<Rightarrow> rat" where
  "pow2 e = (if e \<ge> 0 then 2 ^ nat e else 1 / 2 ^ nat (- e))"

definition roundTiesToEven :: "rat \<Rightarrow> int" where
  "roundTiesToEven x =
     (let f = \<lfloor>x\<rfloor>; r = x - of_int f in
      if r < 1 / 2 then f
      else if r > 1 / 2 then f + 1
      else if even f then f else f + 1)"

text \<open>The number of binary digits of a positive integer.\<close>

function bitLength :: "int \<Rightarrow> nat" where
  "bitLength n = (if n \<le> 0 then 0 else Suc (bitLength (n div 2)))"
  by pat_completeness auto
termination
  by (relation "measure nat") auto

declare bitLength.simps [simp del]

text \<open>The integer \<open>e\<close> with \<open>2^e \<le> x < 2^(e+1)\<close>, for positive \<open>x\<close>.\<close>

definition binaryExponent :: "rat \<Rightarrow> int" where
  "binaryExponent x =
     (let (n, d) = quotient_of x;
          k = int (bitLength n) - int (bitLength d)
      in if pow2 k \<le> x then k else k - 1)"

definition toDouble :: "rat \<Rightarrow> rat" where
  "toDouble x =
     (if x \<le> 0 then 0
      else (let e = binaryExponent x - 52 in of_int (roundTiesToEven (x / pow2 e)) * pow2 e))"

text \<open>\<open>Math.round\<close> rounds to the nearest integer, a half upwards.\<close>

definition Math_round :: "'a::floor_ceiling \<Rightarrow> int" where
  "Math_round x = \<lfloor>x + 1 / 2\<rfloor>"

text \<open>
  The closing expression of both calculators:
  \<open>totalWorkingDays > 0 ? Math.round((presentDays / totalWorkingDays) * 100) : 0\<close>,
  with its two double operations. The quotient is formed in the first branch only.
\<close>

definition percentageOf :: "nat \<Rightarrow> nat \<Rightarrow> int" where
  "percentageOf nPresent nWorking =
     (if nWorking > 0 then
        Math_round (toDouble (toDouble (of_nat nPresent / of_nat nWorking) * 100))
      else 0)"

subsection \<open>Monthly attendance\<close>

text \<open>
  The body of the \<open>for\<close> loop over the days of the month, with the two counters as
  the accumulator; each \<open>continue\<close> is a branch that leaves the counters as they are.
\<close>

fun monthlyLoop ::
  "user_data \<Rightarrow> date \<Rightarrow> int \<Rightarrow> int \<Rightarrow> nat list \<Rightarrow> nat \<times> nat \<Rightarrow> nat \<times> nat" where
  "monthlyLoop userData today year month [] acc = acc"
| "monthlyLoop userData today year month (day # days) (presentDays, totalWorkingDays) =
     (let dateStr = daysFromCivil year month (int day) in
      if dateStr > today then
        monthlyLoop userData today year month days (presentDays, totalWorkingDays)
      else if isNonWorkingDay dateStr userData then
        monthlyLoop userData today year month days (presentDays, totalWorkingDays)
      else if isHoliday userData dateStr then
        monthlyLoop userData today year month days (presentDays, totalWorkingDays)
      else if isNotEnrolled userData dateStr then
        monthlyLoop userData today year month days (presentDays, totalWorkingDays)
      else
        monthlyLoop userData today year month days
          (if isPresent userData dateStr then presentDays + 1 else presentDays,
           totalWorkingDays + 1))"

text \<open>
  \<open>calculateMonthlyAttendance\<close>: the year-month string \<open>YYYY-MM\<close> is given as its
  two numbers, \<open>today\<close> is \<open>getFormattedDate()\<close>. The handler passes what
  \<open>getYearMonthFromDate\<close> formats, a month from 1 to 12.
\<close>

definition calculateMonthlyAttendance :: "store \<Rightarrow> string \<Rightarrow> int \<Rightarrow> int \<Rightarrow> date \<Rightarrow> int" where
  "calculateMonthlyAttendance st attendanceKey year month today =
     (let userData = getUserData st attendanceKey;
          (presentDays, totalWorkingDays) =
            monthlyLoop userData today year month [1 ..< Suc (daysInMonth year month)] (0, 0)
      in percentageOf presentDays totalWorkingDays)"

subsection \<open>Session attendance\<close>

text \<open>
  The \<open>while (currentDate <= end && currentDate <= today)\<close> loop; every branch moves
  \<open>currentDate\<close> one day on.
\<close>

function sessionLoop ::
  "user_data \<Rightarrow> date \<Rightarrow> date \<Rightarrow> date \<Rightarrow> nat \<times> nat \<Rightarrow> nat \<times> nat" where
  "sessionLoop userData endD today currentDate (presentDays, totalWorkingDays) =
     (if currentDate \<le> endD \<and> currentDate \<le> today then
        (if isNonWorkingDay currentDate userData then
           sessionLoop userData endD today (currentDate + 1) (presentDays, totalWorkingDays)
         else if isHoliday userData currentDate then
           sessionLoop userData endD today (currentDate + 1) (presentDays, totalWorkingDays)
         else if isNotEnrolled userData currentDate then
           sessionLoop userData endD today (currentDate + 1) (presentDays, totalWorkingDays)
         else
           sessionLoop userData endD today (currentDate + 1)
             (if isPresent userData currentDate then presentDays + 1 else presentDays,
              totalWorkingDays + 1))
      else (presentDays, totalWorkingDays))"
  by pat_completeness auto
termination
  by (relation "measure (\<lambda>(userData, endD, today, currentDate, acc).
        nat (min endD today + 1 - currentDate))") auto

declare sessionLoop.simps [simp del]

text \<open>
  The window of \<open>calculateSessionAttendance\<close>: the selected session first (a missing
  end date is today), then the session named by the hint (by lower-cased name or by code)
  when a date is still missing, then the current calendar year. The result is the start
  date, the end date and the label \<open>sessionUsed\<close>.
\<close>

definition sessionWindow ::
  "user_data \<Rightarrow> string option \<Rightarrow> date \<Rightarrow> int \<Rightarrow> date \<times> date \<times> string" where
  "sessionWindow userData sessionNameHint today currentYear =
     (let sessions0 = (case sessions userData of None \<Rightarrow> [] | Some ss \<Rightarrow> ss);
          (startDate1, endDate1, sessionUsed1) =
            (case List.find (\<lambda>s. isSelected s) sessions0 of
               Some selectedSession \<Rightarrow>
                 (startDate selectedSession,
                  Some (case endDate selectedSession of Some e \<Rightarrow> e | None \<Rightarrow> today),
                  if name selectedSession = [] then ''current session''
                  else name selectedSession)
             | None \<Rightarrow> (None, None, ''current session''));
          (startDate2, endDate2, sessionUsed2) =
            (case sessionNameHint of
               None \<Rightarrow> (startDate1, endDate1, sessionUsed1)
             | Some sessionName \<Rightarrow>
                 if (startDate1 = None \<or> endDate1 = None) \<and> sessionName \<noteq> [] then
                   (case List.find (\<lambda>s. toLowerCase (name s) = toLowerCase sessionName \<or>
                                        code s = sessionName) sessions0 of
                      Some s \<Rightarrow> (startDate s, endDate s, name s)
                    | None \<Rightarrow> (startDate1, endDate1, sessionUsed1))
                 else (startDate1, endDate1, sessionUsed1))
      in case (startDate2, endDate2) of
           (Some s, Some e) \<Rightarrow> (s, e, sessionUsed2)
         | _ \<Rightarrow> (daysFromCivil currentYear 1 1, daysFromCivil currentYear 12 31,
                  ''current year''))"

text \<open>
  The object \<open>{percentage, sessionName, presentDays, totalWorkingDays}\<close> that the
  calculation returns; its \<open>sessionName\<close> is the field \<open>sessionLabel\<close> here.
\<close>

record attendance_result =
  percentage :: int
  sessionLabel :: string
  presentDays :: nat
  totalWorkingDays :: nat

text \<open>
  \<open>calculateSessionAttendance\<close>: \<open>today\<close> is \<open>getFormattedDate()\<close> and
  \<open>currentYear\<close> is \<open>getLocalDate().getUTCFullYear()\<close>.
\<close>

definition calculateSessionAttendance ::
  "store \<Rightarrow> string \<Rightarrow> string option \<Rightarrow> date \<Rightarrow> int \<Rightarrow> attendance_result" where
  "calculateSessionAttendance st attendanceKey sessionNameHint today currentYear =
     (let userData = getUserData st attendanceKey;
          (startD, endD, sessionUsed) = sessionWindow userData sessionNameHint today currentYear;
          (nPresent, nWorking) = sessionLoop userData endD today startD (0, 0)
      in \<lparr>percentage = percentageOf nPresent nWorking, sessionLabel = sessionUsed,
          presentDays = nPresent, totalWorkingDays = nWorking\<rparr>)"

subsection \<open>Session management\<close>

definition getAvailableSessions :: "store \<Rightarrow> string \<Rightarrow> session list" where
  "getAvailableSessions st attendanceKey =
     (case sessions (getUserData st attendanceKey) of None \<Rightarrow> [] | Some ss \<Rightarrow> ss)"

definition getAlexaPresetSession :: "store \<Rightarrow> string \<Rightarrow> session option" where
  "getAlexaPresetSession st attendanceKey =
     List.find (\<lambda>s. isSelected s) (getAvailableSessions st attendanceKey)"

text \<open>An update that writes the session list only.\<close>

definition sessionsUpdate :: "session list \<Rightarrow> user_data" where
  "sessionsUpdate ss = emptyDoc\<lparr>sessions := Some ss\<rparr>"

datatype preset_error = NoSessionsFound | SessionNotFound

text \<open>
  \<open>setAlexaPresetSession\<close>: one \<open>find\<close> with the test
  \<open>s.code === id || (s.name && s.name.toLowerCase() === id.toLowerCase())\<close>, then every
  session is selected exactly when its code is the code of the session found.
\<close>

definition presetMatches :: "string \<Rightarrow> session \<Rightarrow> bool" where
  "presetMatches sessionIdentifier s =
     (code s = sessionIdentifier \<or>
      (name s \<noteq> [] \<and> toLowerCase (name s) = toLowerCase sessionIdentifier))"

definition selectByCode :: "string \<Rightarrow> session list \<Rightarrow> session list" where
  "selectByCode c ss = map (\<lambda>s. s\<lparr>isSelected := (code s = c)\<rparr>) ss"

definition setAlexaPresetSession ::
  "store \<Rightarrow> string \<Rightarrow> string \<Rightarrow> (preset_error + session) \<times> store" where
  "setAlexaPresetSession st attendanceKey sessionIdentifier =
     (case sessions (getUserData st attendanceKey) of
        None \<Rightarrow> (Inl NoSessionsFound, st)
      | Some ss \<Rightarrow>
          if ss = [] then (Inl NoSessionsFound, st)
          else
            (case List.find (presetMatches sessionIdentifier) ss of
               None \<Rightarrow> (Inl SessionNotFound, st)
             | Some found \<Rightarrow>
                 (Inr found,
                  updateUserData st attendanceKey
                    (sessionsUpdate (selectByCode (code found) ss)))))"

definition clearAlexaPresetSession :: "store \<Rightarrow> string \<Rightarrow> store" where
  "clearAlexaPresetSession st attendanceKey =
     updateUserData st attendanceKey
       (sessionsUpdate
          (map (\<lambda>s. s\<lparr>isSelected := False\<rparr>) (getAvailableSessions st attendanceKey)))"

text \<open>\<open>Array.prototype.findIndex\<close>; \<open>None\<close> is the source's \<open>-1\<close>.\<close>

fun findIndex :: "('a \<Rightarrow> bool) \<Rightarrow> 'a list \<Rightarrow> nat option" where
  "findIndex P [] = None"
| "findIndex P (x # xs) = (if P x then Some 0 else map_option Suc (findIndex P xs))"

text \<open>
  \<open>sort((a, b) => new Date(b.createdAt) - new Date(a.createdAt))\<close>: a stable sort,
  newest first.
\<close>

definition sortByCreatedAtDesc :: "session list \<Rightarrow> session list" where
  "sortByCreatedAtDesc ss = sort_key (\<lambda>s. - createdAt s) ss"

definition saveMatches :: "string \<Rightarrow> string \<Rightarrow> session \<Rightarrow> bool" where
  "saveMatches sessionName sessionCode s =
     (toLowerCase (name s) = toLowerCase sessionName \<or> code s = sessionCode)"

text \<open>
  \<open>saveSession\<close>: \<open>rnd\<close> is \<open>Math.random().toString(36)\<close> and \<open>now\<close> is the
  creation time. The result is the session written and the store. \<open>sessionDataOf\<close>
  is the object literal \<open>sessionData\<close>.
\<close>

definition sessionDataOf ::
  "string \<Rightarrow> string \<Rightarrow> date option \<Rightarrow> date option \<Rightarrow> timestamp \<Rightarrow> bool \<Rightarrow> session" where
  "sessionDataOf sessionName sessionCode startD endD now setAsPreset =
     \<lparr>name = sessionName, code = sessionCode, startDate = startD, endDate = endD,
      createdAt = now, isSelected = setAsPreset\<rparr>"

definition saveSession ::
  "store \<Rightarrow> string \<Rightarrow> string \<Rightarrow> date option \<Rightarrow> date option \<Rightarrow> bool \<Rightarrow> string \<Rightarrow> timestamp
     \<Rightarrow> session \<times> store" where
  "saveSession st attendanceKey sessionName startD endD setAsPreset rnd now =
     (let sessions0 = getAvailableSessions st attendanceKey;
          sessionCode = generateSessionCode sessionName rnd;
          sessionData = sessionDataOf sessionName sessionCode startD endD now setAsPreset;
          updatedSessions1 =
            (case findIndex (saveMatches sessionName sessionCode) sessions0 of
               Some existingIndex \<Rightarrow> sessions0[existingIndex := sessionData]
             | None \<Rightarrow> sessions0 @ [sessionData]);
          updatedSessions2 =
            (if setAsPreset then selectByCode sessionCode updatedSessions1
             else updatedSessions1)
      in (sessionData,
          updateUserData st attendanceKey
            (sessionsUpdate (sortByCreatedAtDesc updatedSessions2))))"

subsection \<open>Intent handlers\<close>

text \<open>
  A handler is modelled from the point where the attendance key is known (the access
  token and the identity mapping are an external collaborator). Its result is the
  response, the store and the dialogue attributes. A response is the \<open>speak\<close> call
  that produced it, with the values interpolated into the text:
  \<^item> \<open>NonWorkingDayResponse\<close>: Today is a non-working day. You cannot mark attendance
    on non-working days.
  \<^item> \<open>AlreadyMarked s\<close>: Today is already marked as \<open>s\<close>.
  \<^item> \<open>ConfirmStatusChange old new\<close>: Today is currently marked as \<open>old\<close>. Would you
    like to change it to \<open>new\<close>?
  \<^item> \<open>MarkedSuccessfully s\<close>: Successfully marked as \<open>s\<close> for today.
  \<^item> \<open>SessionSelected n\<close>: Okay, I've set \<open>n\<close> as your current session and Alexa
    preset.
  \<^item> \<open>AmbiguousSessions k n ranges codes\<close>: I found \<open>k\<close> sessions named \<open>n\<close> with
    date ranges: \<open>ranges\<close>. Please specify which one by using the session code:
    \<open>codes\<close>.
  \<^item> \<open>NoSessionsYet\<close>, \<open>AvailableSessions names more\<close>: the answers without a session
    name (no session, or the first five names and whether there are more).
  \<^item> \<open>NotFoundNoSessions n\<close>, \<open>NotFoundAvailable n names more\<close>: the answers for a
    name that matches nothing.
\<close>

datatype response =
    NonWorkingDayResponse
  | AlreadyMarked string
  | ConfirmStatusChange string string
  | MarkedSuccessfully string
  | SessionSelected string
  | AmbiguousSessions nat string "(date option \<times> date option) list" "string list"
  | NoSessionsYet
  | AvailableSessions "string list" bool
  | NotFoundNoSessions string
  | NotFoundAvailable string "string list" bool

record pending_status_change =
  pdate :: date
  newStatus :: string
  oldStatus :: string
  pholidayName :: "string option"

record session_attributes =
  pendingStatusChange :: "pending_status_change option"

text \<open>\<open>MarkPresentIntentHandler.handle\<close>, from \<open>const today = getFormattedDate()\<close> on.\<close>

definition MarkPresentIntent_handle ::
  "store \<Rightarrow> string \<Rightarrow> date \<Rightarrow> timestamp \<Rightarrow> session_attributes
     \<Rightarrow> response \<times> store \<times> session_attributes" where
  "MarkPresentIntent_handle st attendanceKey today now sessionAttributes =
     (let userData = getUserData st attendanceKey in
      if isNonWorkingDay today userData then (NonWorkingDayResponse, st, sessionAttributes)
      else
        (case getDayStatus st attendanceKey today of
           Some existingStatus \<Rightarrow>
             if statusName existingStatus = ''present'' then
               (AlreadyMarked ''present'', st, sessionAttributes)
             else
               (ConfirmStatusChange (statusName existingStatus) ''present'', st,
                sessionAttributes\<lparr>pendingStatusChange :=
                  Some \<lparr>pdate = today, newStatus = ''present'',
                        oldStatus = statusName existingStatus, pholidayName = None\<rparr>\<rparr>)
         | None \<Rightarrow>
             (MarkedSuccessfully ''present'',
              setDayStatus st attendanceKey today ''present'' None now,
              sessionAttributes)))"

text \<open>
  \<open>SelectSessionIntentHandler.handle\<close>: the slot value is \<open>None\<close> when the request
  has none. With a name, the handler looks for an exact code first, then collects the
  sessions of that lower-cased name; one match is selected through
  \<open>setAlexaPresetSession\<close> with its code, several are reported.
\<close>

definition sessionNameList :: "session list \<Rightarrow> string list \<times> bool" where
  "sessionNameList ss = (map name (take 5 ss), length ss > 5)"

definition SelectSessionIntent_handle ::
  "store \<Rightarrow> string \<Rightarrow> string option \<Rightarrow> response \<times> store" where
  "SelectSessionIntent_handle st attendanceKey sessionNameSlot =
     (let ss = getAvailableSessions st attendanceKey in
      if sessionNameSlot = None \<or> sessionNameSlot = Some [] then
        (if ss = [] then (NoSessionsYet, st)
         else (AvailableSessions (fst (sessionNameList ss)) (snd (sessionNameList ss)), st))
      else
        (let sessionName = the sessionNameSlot in
         case List.find (\<lambda>s. code s = sessionName) ss of
           Some exactCodeMatch \<Rightarrow>
             (SessionSelected (name exactCodeMatch),
              snd (setAlexaPresetSession st attendanceKey (code exactCodeMatch)))
         | None \<Rightarrow>
             (let nameMatches =
                    filter (\<lambda>s. toLowerCase (name s) = toLowerCase sessionName) ss in
              if length nameMatches = 1 then
                (SessionSelected (name (hd nameMatches)),
                 snd (setAlexaPresetSession st attendanceKey (code (hd nameMatches))))
              else if length nameMatches > 1 then
                (AmbiguousSessions (length nameMatches) sessionName
                   (map (\<lambda>s. (startDate s, endDate s)) nameMatches)
                   (map code nameMatches), st)
              else if ss = [] then (NotFoundNoSessions sessionName, st)
              else (NotFoundAvailable sessionName (fst (sessionNameList ss))
                      (snd (sessionNameList ss)), st))))"

subsection \<open>The working-day rule as the specification words it\<close>

text \<open>
  Section 4.2 of the specification: a day is working iff it is not a weekly day off, not
  a Sunday, not in the holidays, not in the not-enrolled dates, and on or before today.
  These definitions follow that sentence, not the source; the properties below compare
  the loops of the source with them.
\<close>

definition specWorkingDay :: "user_data \<Rightarrow> date \<Rightarrow> date \<Rightarrow> bool" where
  "specWorkingDay userData today d =
     (d \<le> today \<and> getDay d \<noteq> 0 \<and>
      getDay d \<notin> set (case weeklyDaysOff userData of None \<Rightarrow> [] | Some ws \<Rightarrow> ws) \<and>
      \<not> isHoliday userData d \<and> \<not> isNotEnrolled userData d)"

definition countWorking :: "user_data \<Rightarrow> date \<Rightarrow> date list \<Rightarrow> nat" where
  "countWorking userData today ds = length (filter (specWorkingDay userData today) ds)"

definition countPresent :: "user_data \<Rightarrow> date \<Rightarrow> date list \<Rightarrow> nat" where
  "countPresent userData today ds =
     length (filter (\<lambda>d. specWorkingDay userData today d \<and> isPresent userData d) ds)"

text \<open>The dates of a month, first to last.\<close>

definition monthDates :: "int \<Rightarrow> int \<Rightarrow> date list" where
  "monthDates year month =
     map (\<lambda>day. daysFromCivil year month (int day)) [1 ..< Suc (daysInMonth year month)]"

subsection \<open>Example documents\<close>

text \<open>
  A document in which the date 2024-03-10 (day 19792) stands in all three containers at
  once, as another writer of the collection could leave it.
\<close>

definition exampleMixedStore :: store where
  "exampleMixedStore =
     [''key-1'' \<mapsto> emptyDoc\<lparr>records := Some [19792 \<mapsto> True],
        holidays := Some [\<lparr>hdate = 19792, hname = ''Old''\<rparr>],
        notEnrolled := Some [19792, 19793]\<rparr>]"

text \<open>The document \<open>records = {}\<close>, \<open>weeklyDaysOff = []\<close>.\<close>

definition exampleFreshStore :: store where
  "exampleFreshStore =
     [''key-1'' \<mapsto> emptyDoc\<lparr>records := Some Map.empty, weeklyDaysOff := Some []\<rparr>]"

definition noAttributes :: session_attributes where
  "noAttributes = \<lparr>pendingStatusChange = None\<rparr>"

text \<open>
  The scenario of section 8 of the specification, with an end date of 2024-01-31: session
  Term1 from 2024-01-01 (day 19723), selected; Monday the 1st present, Tuesday absent,
  Wednesday a holiday, Thursday present, Friday the 5th (day 19727) absent, and a
  record for Monday the 8th.
\<close>

definition exampleTermStore :: store where
  "exampleTermStore =
     [''key-1'' \<mapsto> emptyDoc\<lparr>
        records := Some [19723 \<mapsto> True, 19724 \<mapsto> False, 19726 \<mapsto> True, 19727 \<mapsto> False,
                         19730 \<mapsto> True],
        holidays := Some [\<lparr>hdate = 19725, hname = ''New Year''\<rparr>],
        sessions := Some [\<lparr>name = ''Term1'', code = ''term1ab12'', startDate = Some 19723,
                            endDate = Some 19753, createdAt = 1000, isSelected = True\<rparr>]\<rparr>]"

text \<open>
  The scenario of section 8 as the specification gives it: Term1 ends on 2024-01-05 and
  is not selected.
\<close>

definition exampleScenarioStore :: store where
  "exampleScenarioStore =
     [''key-1'' \<mapsto> emptyDoc\<lparr>
        records := Some [19723 \<mapsto> True, 19724 \<mapsto> False, 19726 \<mapsto> True, 19727 \<mapsto> False],
        holidays := Some [\<lparr>hdate = 19725, hname = ''New Year''\<rparr>],
        sessions := Some [\<lparr>name = ''Term1'', code = ''term1ab12'', startDate = Some 19723,
                            endDate = Some 19727, createdAt = 1000, isSelected = False\<rparr>]\<rparr>]"

text \<open>
  Two sessions named Fall with different codes, the older one selected; and a list in
  which two sessions carry one code (the names Fall and Fall! have the same letters, and
  the random suffix came out the same twice).
\<close>

definition exampleTwoFallStore :: store where
  "exampleTwoFallStore =
     [''key-1'' \<mapsto> emptyDoc\<lparr>sessions := Some
        [\<lparr>name = ''Fall'', code = ''fall1ab2'', startDate = Some 19601, endDate = Some 19722,
           createdAt = 2000, isSelected = False\<rparr>,
         \<lparr>name = ''Fall'', code = ''fall9zz9'', startDate = Some 19967, endDate = Some 20088,
           createdAt = 1000, isSelected = True\<rparr>]\<rparr>]"

definition exampleDupCodeStore :: store where
  "exampleDupCodeStore =
     [''key-1'' \<mapsto> emptyDoc\<lparr>sessions := Some
        [\<lparr>name = ''Fall'', code = ''fall1ab2'', startDate = Some 19601, endDate = Some 19722,
           createdAt = 2000, isSelected = False\<rparr>,
         \<lparr>name = ''Fall!'', code = ''fall1ab2'', startDate = Some 19967, endDate = Some 20088,
           createdAt = 1000, isSelected = False\<rparr>]\<rparr>]"

text \<open>
  A session whose name is, up to case, the code of another session: the code of Fall is
  \<open>fall\<close> with the suffix \<open>1ab2\<close>, and the first session is named Fall1ab2.
\<close>

definition exampleNameLikeCodeStore :: store where
  "exampleNameLikeCodeStore =
     [''key-1'' \<mapsto> emptyDoc\<lparr>sessions := Some
        [\<lparr>name = ''Fall1ab2'', code = ''fall1ab2x7q2'', startDate = Some 19601,
           endDate = Some 19722, createdAt = 2000, isSelected = False\<rparr>,
         \<lparr>name = ''Fall'', code = ''fall1ab2'', startDate = Some 19967, endDate = Some 20088,
           createdAt = 1000, isSelected = False\<rparr>]\<rparr>]"

text \<open>
  A session that carries the code another name generates: Fall! has the code \<open>fall\<close>
  with the suffix \<open>k3f9\<close>, which is the code generated for Fall with that suffix.
\<close>

definition exampleCodeClashStore :: store where
  "exampleCodeClashStore =
     [''key-1'' \<mapsto> emptyDoc\<lparr>sessions := Some
        [\<lparr>name = ''Fall!'', code = ''fallk3f9'', startDate = Some 19601, endDate = Some 19722,
           createdAt = 2000, isSelected = False\<rparr>,
         \<lparr>name = ''Fall'', code = ''fall1ab2'', startDate = Some 19967, endDate = Some 20088,
           createdAt = 1000, isSelected = False\<rparr>]\<rparr>]"

section \<open>Properties\<close>

subsection \<open>Day status: one container per date\<close>

lemma getUserData_updateUserData:
  "getUserData (updateUserData st k upd) k = mergeDoc (getUserData st k) upd"
  by (simp add: getUserData_def updateUserData_def)

text \<open>
  C1. After \<open>setDayStatus\<close> with one of the four statuses, the date is in exactly one
  of the three containers of the stored document (the record map, the holiday list, the
  not-enrolled list), and that container is the one of the status: the record map for
  present (value true) and absent (value false), the holiday list for holiday, the
  not-enrolled list for not-enrolled.
\<close>

theorem setDayStatus_exactly_one:
  assumes "status \<in> {''present'', ''absent'', ''holiday'', ''not-enrolled''}"
  shows "(let doc = getUserData (setDayStatus st k d status hn now) k in
           (hasRecord doc d \<longleftrightarrow> status = ''present'' \<or> status = ''absent'') \<and>
           (status = ''present'' \<longrightarrow> the (records doc) d = Some True) \<and>
           (status = ''absent'' \<longrightarrow> the (records doc) d = Some False) \<and>
           (isHoliday doc d \<longleftrightarrow> status = ''holiday'') \<and>
           (isNotEnrolled doc d \<longleftrightarrow> status = ''not-enrolled'') \<and>
           length (filter (\<lambda>b. b) [hasRecord doc d, isHoliday doc d, isNotEnrolled doc d]) = 1)"
proof -
  let ?doc = "getUserData (setDayStatus st k d status hn now) k"
  have rec: "hasRecord ?doc d \<longleftrightarrow> status = ''present'' \<or> status = ''absent''"
    by (simp add: setDayStatus_def getUserData_updateUserData mergeDoc_def orElse_def
        hasRecord_def Let_def)
  have pres: "status = ''present'' \<longrightarrow> the (records ?doc) d = Some True"
    by (simp add: setDayStatus_def getUserData_updateUserData mergeDoc_def orElse_def Let_def)
  have abs: "status = ''absent'' \<longrightarrow> the (records ?doc) d = Some False"
    by (simp add: setDayStatus_def getUserData_updateUserData mergeDoc_def orElse_def Let_def)
  have hol: "isHoliday ?doc d \<longleftrightarrow> status = ''holiday''"
    by (simp add: setDayStatus_def getUserData_updateUserData mergeDoc_def orElse_def
        isHoliday_def Let_def list_ex_iff)
  have ne: "isNotEnrolled ?doc d \<longleftrightarrow> status = ''not-enrolled''"
    by (simp add: setDayStatus_def getUserData_updateUserData mergeDoc_def orElse_def
        isNotEnrolled_def Let_def)
  from assms have one:
    "length (filter (\<lambda>b. b) [hasRecord ?doc d, isHoliday ?doc d, isNotEnrolled ?doc d]) = 1"
    unfolding rec hol ne by auto
  from rec pres abs hol ne one show ?thesis
    unfolding Let_def by blast
qed

theorem setDayStatus_exactly_one_witness:
  "''holiday'' \<in> {''present'', ''absent'', ''holiday'', ''not-enrolled''} \<and>
   (let doc = getUserData
        (setDayStatus exampleMixedStore ''key-1'' 19792 ''holiday'' (Some ''Diwali'') 1000)
        ''key-1'' in
      \<not> hasRecord doc 19792 \<and> isHoliday doc 19792 \<and> \<not> isNotEnrolled doc 19792 \<and>
      length (filter (\<lambda>b. b)
        [hasRecord doc 19792, isHoliday doc 19792, isNotEnrolled doc 19792]) = 1)"
  using setDayStatus_exactly_one
    [of "''holiday''" exampleMixedStore "''key-1''" 19792 "Some ''Diwali''" 1000]
  by (simp add: Let_def)

text \<open>
  X1. \<open>setDayStatus\<close> for one date leaves every other date as it was in all
  three containers, and leaves the sessions and the weekly days off.
\<close>

theorem setDayStatus_other_dates:
  assumes "d' \<noteq> d"
  shows "(let doc = getUserData st k; doc' = getUserData (setDayStatus st k d status hn now) k in
           (case records doc' of None \<Rightarrow> None | Some r \<Rightarrow> r d') =
             (case records doc of None \<Rightarrow> None | Some r \<Rightarrow> r d') \<and>
           isHoliday doc' d' = isHoliday doc d' \<and>
           isNotEnrolled doc' d' = isNotEnrolled doc d' \<and>
           sessions doc' = sessions doc \<and> weeklyDaysOff doc' = weeklyDaysOff doc)"
proof -
  let ?doc = "getUserData st k"
  let ?doc' = "getUserData (setDayStatus st k d status hn now) k"
  have r: "(case records ?doc' of None \<Rightarrow> None | Some r \<Rightarrow> r d') =
             (case records ?doc of None \<Rightarrow> None | Some r \<Rightarrow> r d')"
    using assms
    by (simp add: setDayStatus_def getUserData_updateUserData mergeDoc_def orElse_def Let_def
        split: option.splits)
  have h: "isHoliday ?doc' d' = isHoliday ?doc d'"
    using assms
    by (auto simp: setDayStatus_def getUserData_updateUserData mergeDoc_def orElse_def Let_def
        isHoliday_def list_ex_iff split: option.splits)
  have n: "isNotEnrolled ?doc' d' = isNotEnrolled ?doc d'"
    using assms
    by (auto simp: setDayStatus_def getUserData_updateUserData mergeDoc_def orElse_def Let_def
        isNotEnrolled_def split: option.splits)
  have o: "sessions ?doc' = sessions ?doc \<and> weeklyDaysOff ?doc' = weeklyDaysOff ?doc"
    by (simp add: setDayStatus_def getUserData_updateUserData mergeDoc_def orElse_def Let_def
        split: prod.splits)
  from r h n o show ?thesis unfolding Let_def by blast
qed

theorem setDayStatus_other_dates_witness:
  "(19793 :: int) \<noteq> 19792 \<and>
   isNotEnrolled (getUserData
      (setDayStatus exampleMixedStore ''key-1'' 19792 ''present'' None 1000) ''key-1'') 19793 \<and>
   isNotEnrolled (getUserData exampleMixedStore ''key-1'') 19793"
proof -
  have ne: "(19793 :: int) \<noteq> 19792" by simp
  have b: "isNotEnrolled (getUserData exampleMixedStore ''key-1'') 19793"
    by (simp add: exampleMixedStore_def getUserData_def isNotEnrolled_def emptyDoc_def)
  note inst = setDayStatus_other_dates [OF ne, of exampleMixedStore "''key-1''" "''present''"
      None 1000, unfolded Let_def]
  from inst ne b show ?thesis by blast
qed

subsection \<open>Marking present on a Sunday\<close>

text \<open>Day numbers of some calendar dates, across a leap day and a turn of the year.\<close>

lemma daysFromCivil_checks:
  "daysFromCivil 1970 1 1 = 0"
  "daysFromCivil 2024 2 29 + 1 = daysFromCivil 2024 3 1"
  "daysFromCivil 2023 12 31 + 1 = daysFromCivil 2024 1 1"
  "daysFromCivil 2024 1 1 = 19723"
  "daysFromCivil 2024 3 10 = 19792"
  by (simp_all add: daysFromCivil_def)

lemma sunday_2024_03_10: "getDay (daysFromCivil 2024 3 10) = 0"
  by (simp add: daysFromCivil_def getDay_def)

text \<open>
  C9. When today is a Sunday (weekday 0), whatever the weekly days off of the document
  are, marking present answers with the non-working-day response and leaves the store
  (the record map and every other field of every document) and the dialogue attributes
  as they were: \<open>setDayStatus\<close> is not reached.
\<close>

theorem markPresent_sunday_rejected:
  assumes "getDay today = 0"
  shows "MarkPresentIntent_handle st k today now attrs = (NonWorkingDayResponse, st, attrs)"
  using assms by (simp add: MarkPresentIntent_handle_def isNonWorkingDay_def)

theorem markPresent_sunday_rejected_witness:
  "getDay (daysFromCivil 2024 3 10) = 0 \<and>
   MarkPresentIntent_handle exampleFreshStore ''key-1'' (daysFromCivil 2024 3 10) 1000
     noAttributes = (NonWorkingDayResponse, exampleFreshStore, noAttributes)"
  using markPresent_sunday_rejected
    [OF sunday_2024_03_10, of exampleFreshStore "''key-1''" 1000 noAttributes]
    sunday_2024_03_10
  by simp

text \<open>On the Monday after, the same request is written to the record map.\<close>

lemma markPresent_monday_written:
  "(case MarkPresentIntent_handle exampleFreshStore ''key-1'' (daysFromCivil 2024 3 11) 1000
           noAttributes of
      (r, st', a) \<Rightarrow>
        r = MarkedSuccessfully ''present'' \<and>
        the (records (getUserData st' ''key-1'')) (daysFromCivil 2024 3 11) = Some True)"
  by (simp add: MarkPresentIntent_handle_def isNonWorkingDay_def daysFromCivil_def getDay_def
      exampleFreshStore_def getUserData_def emptyDoc_def getDayStatus_def hasRecord_def
      isHoliday_def isNotEnrolled_def setDayStatus_def updateUserData_def mergeDoc_def
      orElse_def)

subsection \<open>The calculators count the working days of the specification\<close>

lemma specWorkingDay_iff:
  "specWorkingDay ud today d \<longleftrightarrow>
     d \<le> today \<and> \<not> isNonWorkingDay d ud \<and> \<not> isHoliday ud d \<and> \<not> isNotEnrolled ud d"
  by (cases "weeklyDaysOff ud") (auto simp: specWorkingDay_def isNonWorkingDay_def Let_def)

lemma monthlyLoop_counts:
  "monthlyLoop ud today y m days (p, n) =
     (p + countPresent ud today (map (\<lambda>day. daysFromCivil y m (int day)) days),
      n + countWorking ud today (map (\<lambda>day. daysFromCivil y m (int day)) days))"
proof (induction days arbitrary: p n)
  case Nil
  show ?case by (simp add: countPresent_def countWorking_def)
next
  case (Cons day days)
  show ?case
    by (simp add: Cons.IH countPresent_def countWorking_def specWorkingDay_iff Let_def)
qed

lemma calculateMonthlyAttendance_counts:
  "calculateMonthlyAttendance st k y m today =
     percentageOf (countPresent (getUserData st k) today (monthDates y m))
       (countWorking (getUserData st k) today (monthDates y m))"
  by (simp add: calculateMonthlyAttendance_def monthlyLoop_counts monthDates_def Let_def)

lemma sessionLoop_counts:
  "sessionLoop ud e t c (p, n) =
     (p + countPresent ud t [c..min e t], n + countWorking ud t [c..min e t])"
proof (induction ud e t c "(p, n)" arbitrary: p n rule: sessionLoop.induct)
  case (1 ud e t c p n)
  show ?case
  proof (cases "c \<le> e \<and> c \<le> t")
    case False
    then have empty: "[c..min e t] = []" by auto
    have "sessionLoop ud e t c (p, n) = (p, n)"
      by (subst sessionLoop.simps) (simp only: False if_False)
    then show ?thesis
      by (simp add: empty countPresent_def countWorking_def)
  next
    case True
    then have up: "[c..min e t] = c # [c + 1..min e t]"
      by (simp add: upto_rec1)
    from True have ct: "c \<le> t" by simp
    show ?thesis
      using True ct 1
      by (simp add: sessionLoop.simps [of ud e t c] up countPresent_def countWorking_def
          specWorkingDay_iff)
  qed
qed

lemma exampleTerm_doc:
  "getUserData exampleTermStore ''key-1'' = emptyDoc\<lparr>
        records := Some [19723 \<mapsto> True, 19724 \<mapsto> False, 19726 \<mapsto> True, 19727 \<mapsto> False,
                         19730 \<mapsto> True],
        holidays := Some [\<lparr>hdate = 19725, hname = ''New Year''\<rparr>],
        sessions := Some [\<lparr>name = ''Term1'', code = ''term1ab12'', startDate = Some 19723,
                            endDate = Some 19753, createdAt = 1000, isSelected = True\<rparr>]\<rparr>"
  by (simp add: exampleTermStore_def getUserData_def)

lemma civil_2024_01_05: "daysFromCivil 2024 1 5 = 19727"
  by (simp add: daysFromCivil_def)

subsection \<open>The percentage in doubles\<close>

text \<open>
  The rounding error of \<open>toDouble\<close> is at most the value times \<open>2^-53\<close>. For at most
  31 working days the rounded double result is therefore the exactly rounded percentage:
  away from a half the error is too small to matter, and the halves are multiples of an
  eighth, which the doubles represent exactly.
\<close>

lemma pow2_powi: "pow2 e = 2 powi e"
  by (simp add: pow2_def power_int_def power_inverse inverse_eq_divide power_one_over)

lemma pow2_pos [simp]: "0 < pow2 e"
  by (simp add: pow2_powi)

lemma pow2_add: "pow2 (a + b) = pow2 a * pow2 b"
  by (simp add: pow2_powi power_int_add)

lemma pow2_diff: "pow2 (a - b) = pow2 a / pow2 b"
  by (simp add: pow2_powi power_int_diff)

lemma pow2_nat: "pow2 (int n) = 2 ^ n"
  by (simp add: pow2_def)

lemma bitLength_bounds:
  "0 < n \<Longrightarrow> 2 ^ (bitLength n - 1) \<le> n \<and> n < 2 ^ bitLength n"
proof (induction n rule: bitLength.induct)
  case (1 n)
  show ?case
  proof (cases "n div 2 = 0")
    case True
    with "1.prems" have n1: "n = 1" by presburger
    show ?thesis unfolding n1
      by (simp add: bitLength.simps [of 1] bitLength.simps [of 0])
  next
    case False
    with "1.prems" have pos: "0 < n div 2" by presburger
    from "1.prems" have nle: "\<not> n \<le> 0" by simp
    from "1.IH" [OF nle pos]
    have lo: "2 ^ (bitLength (n div 2) - 1) \<le> n div 2" and hi: "n div 2 < 2 ^ bitLength (n div 2)"
      by simp_all
    have bl: "bitLength n = Suc (bitLength (n div 2))"
      using nle by (subst bitLength.simps) simp
    have bpos: "0 < bitLength (n div 2)"
      using pos by (subst bitLength.simps) simp
    then obtain b where b: "bitLength (n div 2) = Suc b" by (cases "bitLength (n div 2)") auto
    from lo b have lo': "2 ^ b \<le> n div 2" by simp
    from hi b have hi': "n div 2 < 2 * 2 ^ b" by simp
    have "2 * 2 ^ b \<le> n" using lo' by presburger
    moreover have "n < 2 * (2 * 2 ^ b)" using hi' by presburger
    ultimately show ?thesis by (simp add: bl b)
  qed
qed

lemma binaryExponent_bounds:
  assumes "0 < x"
  shows "pow2 (binaryExponent x) \<le> x \<and> x < pow2 (binaryExponent x + 1)"
proof -
  obtain n d where q: "quotient_of x = (n, d)" by (cases "quotient_of x")
  from quotient_of_denom_pos [OF q] have d: "0 < d" .
  from quotient_of_div [OF q] have x: "x = of_int n / of_int d" .
  from assms x d have n: "0 < n" by (simp add: zero_less_divide_iff)
  define a where "a = bitLength n"
  define b where "b = bitLength d"
  from bitLength_bounds [OF n] have na: "2 ^ (a - 1) \<le> n" "n < 2 ^ a" by (simp_all add: a_def)
  from bitLength_bounds [OF d] have db: "2 ^ (b - 1) \<le> d" "d < 2 ^ b" by (simp_all add: b_def)
  have apos: "0 < a" using n by (subst a_def, subst bitLength.simps) simp
  have bpos: "0 < b" using d by (subst b_def, subst bitLength.simps) simp
  let ?k = "int a - int b"
  have rn: "(2::rat) ^ (a - 1) \<le> of_int n" "of_int n < (2::rat) ^ a"
    using na by (metis of_int_le_iff of_int_numeral of_int_power, metis of_int_less_iff of_int_numeral of_int_power)
  have rd: "(2::rat) ^ (b - 1) \<le> of_int d" "of_int d < (2::rat) ^ b"
    using db by (metis of_int_le_iff of_int_numeral of_int_power, metis of_int_less_iff of_int_numeral of_int_power)
  have dpos: "(0::rat) < of_int d" using d by simp
  have upper: "x < pow2 (?k + 1)"
  proof -
    have "x < 2 ^ a / of_int d" unfolding x using rn(2) dpos by (simp add: divide_strict_right_mono)
    also have "\<dots> \<le> 2 ^ a / 2 ^ (b - 1)" using rd(1) by (simp add: frac_le)
    also have "\<dots> = pow2 (int a - int (b - 1))" by (simp add: pow2_diff pow2_nat)
    also have "int a - int (b - 1) = ?k + 1" using bpos by simp
    finally show ?thesis .
  qed
  have lower: "pow2 (?k - 1) < x"
  proof -
    have "pow2 (?k - 1) = pow2 (int (a - 1) - int b)" using apos by (simp add: algebra_simps of_nat_diff)
    also have "\<dots> = 2 ^ (a - 1) / 2 ^ b" by (simp add: pow2_diff pow2_nat)
    also have "\<dots> < 2 ^ (a - 1) / of_int d" using rd(2) dpos by (simp add: frac_less2)
    also have "\<dots> \<le> x" unfolding x using rn(1) dpos by (simp add: divide_right_mono)
    finally show ?thesis .
  qed
  have be: "binaryExponent x = (if pow2 ?k \<le> x then ?k else ?k - 1)"
    by (simp add: binaryExponent_def q a_def b_def)
  show ?thesis
  proof (cases "pow2 ?k \<le> x")
    case True
    with be upper show ?thesis by simp
  next
    case False
    with be lower show ?thesis by simp
  qed
qed

lemma roundTiesToEven_error: "\<bar>of_int (roundTiesToEven y) - y\<bar> \<le> 1 / 2"
proof -
  have "of_int \<lfloor>y\<rfloor> \<le> y" "y < of_int \<lfloor>y\<rfloor> + 1" by linarith+
  then show ?thesis
    unfolding roundTiesToEven_def Let_def
    by (auto simp: abs_le_iff; linarith)
qed

lemma toDouble_error:
  assumes "0 < x"
  shows "\<bar>toDouble x - x\<bar> \<le> x / 2 ^ 53"
proof -
  define e where "e = binaryExponent x"
  define s where "s = pow2 (e - 52)"
  have spos: "0 < s" by (simp add: s_def)
  have td: "toDouble x = of_int (roundTiesToEven (x / s)) * s"
    using assms by (simp add: toDouble_def e_def s_def Let_def)
  have "toDouble x - x = (of_int (roundTiesToEven (x / s)) - x / s) * s"
    using spos by (simp add: td field_simps)
  then have "\<bar>toDouble x - x\<bar> = \<bar>of_int (roundTiesToEven (x / s)) - x / s\<bar> * s"
    using spos by (simp add: abs_mult abs_of_pos)
  also have "\<dots> \<le> 1 / 2 * s"
    using roundTiesToEven_error [of "x / s"] spos by (simp add: mult_right_mono)
  also have "1 / 2 * s = pow2 e / 2 ^ 53"
  proof -
    have "s = pow2 e / pow2 52" unfolding s_def by (rule pow2_diff)
    also have "pow2 52 = 2 ^ 52" using pow2_nat [of 52] by simp
    finally show ?thesis by simp
  qed
  also have "\<dots> \<le> x / 2 ^ 53"
    using binaryExponent_bounds [OF assms] by (simp add: e_def divide_right_mono)
  finally show ?thesis .
qed

lemma Math_round_exact_rat:
  assumes "0 < w"
  shows "Math_round (of_nat p / of_nat w * 100 :: rat) = int ((200 * p + w) div (2 * w))"
proof -
  have "(of_nat p / of_nat w * 100 :: rat) + 1 / 2 = of_nat (200 * p + w) / of_nat (2 * w)"
    using assms by (simp add: field_simps)
  then show ?thesis
    unfolding Math_round_def by (simp only: floor_divide_of_nat_eq)
qed

lemma Math_round_exact_real:
  assumes "0 < w"
  shows "Math_round (real p / real w * 100) = int ((200 * p + w) div (2 * w))"
proof -
  have "real p / real w * 100 + 1 / 2 = of_nat (200 * p + w) / of_nat (2 * w)"
    using assms by (simp add: field_simps)
  then show ?thesis
    unfolding Math_round_def by (simp only: floor_divide_of_nat_eq)
qed

lemma double_percent_close:
  assumes "0 < p" and "p \<le> w"
  shows "\<bar>toDouble (toDouble (of_nat p / of_nat w) * 100) - of_nat p / of_nat w * 100\<bar>
           \<le> 1 / 2 ^ 44"
proof -
  define x :: rat where "x = of_nat p / of_nat w"
  define q where "q = toDouble x"
  define r where "r = toDouble (q * 100)"
  from assms have wpos: "0 < w" by simp
  have xpos: "0 < x" using assms wpos by (simp add: x_def)
  have xle: "x \<le> 1" using assms wpos by (simp add: x_def)
  from toDouble_error [OF xpos] have qe: "\<bar>q - x\<bar> \<le> x / 2 ^ 53" by (simp add: q_def)
  have small: "x / 2 ^ 53 \<le> 1 / 2 ^ 53" using xle by (simp add: divide_right_mono)
  have lt: "x / 2 ^ 53 < x" using xpos by (simp add: field_simps)
  from qe lt have qpos: "0 < q" by linarith
  have tiny: "(1::rat) / 2 ^ 53 \<le> 1" by simp
  from qe small xle tiny have qle: "q \<le> 2" by linarith
  have q100: "0 < q * 100" using qpos by simp
  from toDouble_error [OF q100] have re: "\<bar>r - q * 100\<bar> \<le> q * 100 / 2 ^ 53" by (simp add: r_def)
  have "q * 100 / 2 ^ 53 \<le> 200 / 2 ^ 53" using qle by (simp add: divide_right_mono)
  with re have re': "\<bar>r - q * 100\<bar> \<le> 200 / 2 ^ 53" by linarith
  from qe small have qe': "\<bar>q * 100 - x * 100\<bar> \<le> 100 / 2 ^ 53"
    by linarith
  have "\<bar>r - x * 100\<bar> \<le> \<bar>r - q * 100\<bar> + \<bar>q * 100 - x * 100\<bar>" by simp
  also have "\<dots> \<le> 300 / 2 ^ 53" using re' qe' by linarith
  also have "\<dots> \<le> 1 / 2 ^ 44" by simp
  finally show ?thesis by (simp add: r_def q_def x_def)
qed

lemma percentageOf_not_half:
  assumes "0 < w" and "w \<le> 31" and "p \<le> w" and "(200 * p + w) mod (2 * w) \<noteq> 0"
  shows "percentageOf p w = int ((200 * p + w) div (2 * w))"
proof (cases "p = 0")
  case True
  with assms(1) show ?thesis
    by (simp add: percentageOf_def toDouble_def Math_round_def floor_eq_iff)
next
  case False
  define k where "k = (200 * p + w) div (2 * w)"
  define m where "m = (200 * p + w) mod (2 * w)"
  define X :: rat where "X = of_nat p / of_nat w * 100"
  define r where "r = toDouble (toDouble (of_nat p / of_nat w) * 100)"
  from False have ppos: "0 < p" by simp
  from double_percent_close [OF ppos assms(3)] have close: "\<bar>r - X\<bar> \<le> 1 / 2 ^ 44"
    by (simp add: r_def X_def)
  have m1: "1 \<le> m" using assms(4) by (simp add: m_def)
  have m2: "m + 1 \<le> 2 * w" using assms(1) by (simp add: m_def Suc_le_eq)
  have split: "200 * p + w = 2 * w * k + m" by (simp add: k_def m_def)
  have T: "X + 1 / 2 = of_nat k + of_nat m / of_nat (2 * w)"
  proof -
    have "X + 1 / 2 = of_nat (200 * p + w) / of_nat (2 * w)"
      using assms(1) by (simp add: X_def field_simps)
    also have "\<dots> = of_nat (2 * w * k + m) / of_nat (2 * w)" by (simp only: split)
    also have "\<dots> = of_nat k + of_nat m / of_nat (2 * w)"
      using assms(1) by (simp add: field_simps)
    finally show ?thesis .
  qed
  have w2: "(0::rat) < of_nat (2 * w)" "(of_nat (2 * w) :: rat) \<le> 62"
    using assms(1,2) by simp_all
  have lo: "(1::rat) / 62 \<le> of_nat m / of_nat (2 * w)"
  proof -
    have "(1::rat) / 62 \<le> 1 / of_nat (2 * w)" using w2 by (simp add: frac_le)
    also have "\<dots> \<le> of_nat m / of_nat (2 * w)" using m1 w2 by (simp add: divide_right_mono)
    finally show ?thesis .
  qed
  have hi: "of_nat m / of_nat (2 * w) \<le> 1 - (1::rat) / 62"
  proof -
    have "(of_nat m :: rat) + 1 \<le> of_nat (2 * w)" using m2 by (metis of_nat_1 of_nat_add of_nat_le_iff)
    then have "of_nat m / of_nat (2 * w) \<le> (of_nat (2 * w) - 1) / (of_nat (2 * w) :: rat)"
      using w2 by (simp add: divide_right_mono)
    also have "\<dots> = 1 - 1 / (of_nat (2 * w) :: rat)" using w2 by (simp add: field_simps)
    also have "\<dots> \<le> 1 - 1 / 62" using w2 by (simp add: frac_le)
    finally show ?thesis .
  qed
  have eps: "(1::rat) / 2 ^ 44 < 1 / 62" by simp
  from close have c: "X - 1 / 2 ^ 44 \<le> r" "r \<le> X + 1 / 2 ^ 44" by linarith+
  have "of_nat k \<le> r + 1 / 2" using c(1) T lo eps by linarith
  moreover have "r + 1 / 2 < of_nat k + 1" using c(2) T hi eps by linarith
  ultimately have "\<lfloor>r + 1 / 2\<rfloor> = int k"
    by (intro floor_unique) simp_all
  then show ?thesis
    using assms(1) by (simp add: percentageOf_def Math_round_def r_def k_def)
qed

lemma half_cases_list:
  "list_all (\<lambda>w::int. list_all (\<lambda>p::int.
       p \<le> w \<and> (200 * p + w) mod (2 * w) = 0 \<longrightarrow>
         8 * p = w \<or> 8 * p = 3 * w \<or> 8 * p = 5 * w \<or> 8 * p = 7 * w)
       (0 # 1 # [2..31]))
     (1 # [2..31])"
  by simp

lemma half_cases:
  fixes p w :: nat
  assumes "0 < w" and "w \<le> 31" and "p \<le> w" and "(200 * p + w) mod (2 * w) = 0"
  shows "8 * p = w \<or> 8 * p = 3 * w \<or> 8 * p = 5 * w \<or> 8 * p = 7 * w"
proof -
  have "int w \<in> insert 1 {2..31}"
    using assms(1,2) by auto
  then have wm: "int w \<in> set (1 # [2..31])"
    by (simp only: list.set set_upto)
  have "int p \<in> insert 0 (insert 1 {2..31})"
    using assms(2,3) by auto
  then have pm: "int p \<in> set (0 # 1 # [2..31])"
    by (simp only: list.set set_upto)
  note all = half_cases_list [unfolded list_all_iff]
  from all wm have "\<forall>p \<in> set (0 # 1 # [2..31]).
      p \<le> int w \<and> (200 * p + int w) mod (2 * int w) = 0 \<longrightarrow>
        8 * p = int w \<or> 8 * p = 3 * int w \<or> 8 * p = 5 * int w \<or> 8 * p = 7 * int w"
    by (rule bspec)
  from this pm have imp: "int p \<le> int w \<and> (200 * int p + int w) mod (2 * int w) = 0 \<longrightarrow>
        8 * int p = int w \<or> 8 * int p = 3 * int w \<or> 8 * int p = 5 * int w \<or>
        8 * int p = 7 * int w"
    by (rule bspec)
  have "int ((200 * p + w) mod (2 * w)) = (200 * int p + int w) mod (2 * int w)"
    by (simp add: zmod_int)
  with assms(4) have "(200 * int p + int w) mod (2 * int w) = 0"
    by simp
  with imp assms(3) have "8 * int p = int w \<or> 8 * int p = 3 * int w \<or> 8 * int p = 5 * int w \<or>
        8 * int p = 7 * int w"
    by simp
  then show ?thesis
    by linarith
qed

lemma percentageOf_1_8: "percentageOf 1 8 = 13"
  by code_simp

lemma percentageOf_3_8: "percentageOf 3 8 = 38"
  by code_simp

lemma percentageOf_5_8: "percentageOf 5 8 = 63"
  by code_simp

lemma percentageOf_7_8: "percentageOf 7 8 = 88"
  by code_simp

lemmas percentageOf_eighths = percentageOf_1_8 percentageOf_3_8 percentageOf_5_8 percentageOf_7_8

lemma exact_eighths:
  "(200 * 1 + 8) div (2 * 8) = (13::nat)" "(200 * 3 + 8) div (2 * 8) = (38::nat)"
  "(200 * 5 + 8) div (2 * 8) = (63::nat)" "(200 * 7 + 8) div (2 * 8) = (88::nat)"
  by simp_all

lemma percentageOf_same_ratio:
  fixes p w p' w' :: nat
  assumes "0 < w" and "0 < w'" and "p * w' = p' * w"
  shows "percentageOf p w = percentageOf p' w'"
proof -
  from assms(3) have "(of_nat p :: rat) * of_nat w' = of_nat p' * of_nat w"
    by (metis of_nat_mult)
  with assms(1,2) have "(of_nat p / of_nat w :: rat) = of_nat p' / of_nat w'"
    by (simp add: frac_eq_eq)
  with assms(1,2) show ?thesis by (simp add: percentageOf_def)
qed

lemma exact_same_ratio:
  fixes p w p' w' :: nat
  assumes "0 < w" and "0 < w'" and "p * w' = p' * w"
  shows "(200 * p + w) div (2 * w) = (200 * p' + w') div (2 * w')"
proof -
  from assms(3) have "(of_nat p :: rat) * of_nat w' = of_nat p' * of_nat w"
    by (metis of_nat_mult)
  with assms(1,2) have "(of_nat p / of_nat w :: rat) = of_nat p' / of_nat w'"
    by (simp add: frac_eq_eq)
  then have "Math_round (of_nat p / of_nat w * 100 :: rat) =
      Math_round (of_nat p' / of_nat w' * 100 :: rat)" by simp
  then show ?thesis
    by (simp only: Math_round_exact_rat [OF assms(1)] Math_round_exact_rat [OF assms(2)] of_nat_eq_iff)
qed

lemma percentageOf_month_exact:
  assumes "0 < w" and "w \<le> 31" and "p \<le> w"
  shows "percentageOf p w = int ((200 * p + w) div (2 * w))"
proof (cases "(200 * p + w) mod (2 * w) = 0")
  case False
  with assms show ?thesis by (rule percentageOf_not_half)
next
  case True
  from half_cases [OF assms True]
  have "8 * p = w \<or> 8 * p = 3 * w \<or> 8 * p = 5 * w \<or> 8 * p = 7 * w" .
  then consider "p * 8 = 1 * w" | "p * 8 = 3 * w" | "p * 8 = 5 * w" | "p * 8 = 7 * w"
    by (auto simp: mult.commute)
  then show ?thesis
  proof cases
    case 1
    have "percentageOf p w = percentageOf 1 8"
      by (rule percentageOf_same_ratio [OF assms(1) _ 1]) simp
    moreover have "(200 * p + w) div (2 * w) = (200 * 1 + 8) div (2 * 8)"
      by (rule exact_same_ratio [OF assms(1) _ 1]) simp
    ultimately show ?thesis
      by (simp only: percentageOf_eighths exact_eighths)
  next
    case 2
    have "percentageOf p w = percentageOf 3 8"
      by (rule percentageOf_same_ratio [OF assms(1) _ 2]) simp
    moreover have "(200 * p + w) div (2 * w) = (200 * 3 + 8) div (2 * 8)"
      by (rule exact_same_ratio [OF assms(1) _ 2]) simp
    ultimately show ?thesis
      by (simp only: percentageOf_eighths exact_eighths)
  next
    case 3
    have "percentageOf p w = percentageOf 5 8"
      by (rule percentageOf_same_ratio [OF assms(1) _ 3]) simp
    moreover have "(200 * p + w) div (2 * w) = (200 * 5 + 8) div (2 * 8)"
      by (rule exact_same_ratio [OF assms(1) _ 3]) simp
    ultimately show ?thesis
      by (simp only: percentageOf_eighths exact_eighths)
  next
    case 4
    have "percentageOf p w = percentageOf 7 8"
      by (rule percentageOf_same_ratio [OF assms(1) _ 4]) simp
    moreover have "(200 * p + w) div (2 * w) = (200 * 7 + 8) div (2 * 8)"
      by (rule exact_same_ratio [OF assms(1) _ 4]) simp
    ultimately show ?thesis
      by (simp only: percentageOf_eighths exact_eighths)
  qed
qed

lemma percentageOf_month:
  assumes "w \<le> 31" and "p \<le> w"
  shows "percentageOf p w = (if w = 0 then 0 else Math_round (real p / real w * 100))"
proof (cases "w = 0")
  case True
  then show ?thesis by (simp add: percentageOf_def)
next
  case False
  then have "0 < w" by simp
  from percentageOf_month_exact [OF this assms] Math_round_exact_real [OF this, of p] False
  show ?thesis by (simp only: if_False)
qed

text \<open>
  Beyond the size of a month the double result can differ from the exact one: 23 present
  days of 40 working days are 57.5 percent, and the doubles give 57.
\<close>

lemma percentageOf_23_40: "percentageOf 23 40 = 57"
  by code_simp

lemma count_bounds:
  "countPresent ud today ds \<le> countWorking ud today ds"
  "countWorking ud today ds \<le> length ds"
proof -
  have "filter (\<lambda>d. specWorkingDay ud today d \<and> isPresent ud d) ds =
      filter (isPresent ud) (filter (specWorkingDay ud today) ds)"
    by (simp add: conj_commute)
  then show "countPresent ud today ds \<le> countWorking ud today ds"
    by (simp add: countPresent_def countWorking_def del: filter_filter)
  show "countWorking ud today ds \<le> length ds"
    by (simp add: countWorking_def)
qed

lemma length_monthDates: "length (monthDates y m) \<le> 31"
  by (simp add: monthDates_def daysInMonth_def)

subsection \<open>Monthly percentage\<close>

text \<open>
  C4. The monthly percentage is 0 when the month has no working day (every day of it is
  a Sunday, a weekly day off, a holiday, not enrolled or after today), and otherwise the
  rounded value of present days over working days times 100. The quotient is formed
  only when the number of working days is positive.
\<close>

theorem monthly_zero_or_rounded:
  "calculateMonthlyAttendance st k y m today =
     (let w = countWorking (getUserData st k) today (monthDates y m);
          p = countPresent (getUserData st k) today (monthDates y m)
      in if w = 0 then 0 else Math_round (real p / real w * 100)) \<and>
   ((\<forall>d \<in> set (monthDates y m). \<not> specWorkingDay (getUserData st k) today d) \<longrightarrow>
      calculateMonthlyAttendance st k y m today = 0)"
proof -
  have eq: "calculateMonthlyAttendance st k y m today =
     (let w = countWorking (getUserData st k) today (monthDates y m);
          p = countPresent (getUserData st k) today (monthDates y m)
      in if w = 0 then 0 else Math_round (real p / real w * 100))"
  proof -
    have "countWorking (getUserData st k) today (monthDates y m) \<le> 31"
      using count_bounds(2) [of "getUserData st k" today "monthDates y m"]
        length_monthDates [of y m] by linarith
    from percentageOf_month [OF this count_bounds(1)] show ?thesis
      by (simp add: calculateMonthlyAttendance_counts Let_def)
  qed
  have zero: "calculateMonthlyAttendance st k y m today = 0"
    if "\<forall>d \<in> set (monthDates y m). \<not> specWorkingDay (getUserData st k) today d"
  proof -
    from that have "filter (specWorkingDay (getUserData st k) today) (monthDates y m) = []"
      by (simp add: filter_empty_conv)
    then have "countWorking (getUserData st k) today (monthDates y m) = 0"
      by (simp add: countWorking_def)
    then show ?thesis by (simp add: eq Let_def)
  qed
  from eq zero show ?thesis by blast
qed

lemma monthDates_2024_02: "monthDates 2024 2 = [19754..19782]"
  by (simp add: monthDates_def daysInMonth_def isLeapYear_def daysFromCivil_def upt_rec)

text \<open>
  On 2024-01-05 the whole of February is after today (percentage 0), and January has
  four working days of which two are present (percentage 50).
\<close>

theorem monthly_zero_or_rounded_witness:
  "list_all (\<lambda>d. \<not> specWorkingDay (getUserData exampleTermStore ''key-1'') 19727 d)
     (monthDates 2024 2) \<and>
   calculateMonthlyAttendance exampleTermStore ''key-1'' 2024 2 19727 = 0 \<and>
   calculateMonthlyAttendance exampleTermStore ''key-1'' 2024 1 19727 = 50"
proof -
  have after: "list_all (\<lambda>d. \<not> specWorkingDay (getUserData exampleTermStore ''key-1'') 19727 d)
     (monthDates 2024 2)"
    by (simp add: monthDates_2024_02 specWorkingDay_def)
  then have none: "\<forall>d \<in> set (monthDates 2024 2).
      \<not> specWorkingDay (getUserData exampleTermStore ''key-1'') 19727 d"
    by (simp add: list_all_iff)
  from monthly_zero_or_rounded [of exampleTermStore "''key-1''" 2024 2 19727] none
  have feb: "calculateMonthlyAttendance exampleTermStore ''key-1'' 2024 2 19727 = 0"
    by blast
  have cw: "countWorking (getUserData exampleTermStore ''key-1'') 19727 (monthDates 2024 1) = 4"
    by (simp add: exampleTerm_doc countWorking_def specWorkingDay_def emptyDoc_def getDay_def
        isHoliday_def isNotEnrolled_def monthDates_def daysInMonth_def daysFromCivil_def upt_rec)
  have cp: "countPresent (getUserData exampleTermStore ''key-1'') 19727 (monthDates 2024 1) = 2"
    by (simp add: exampleTerm_doc countPresent_def specWorkingDay_def emptyDoc_def getDay_def
        isHoliday_def isNotEnrolled_def isPresent_def monthDates_def daysInMonth_def
        daysFromCivil_def upt_rec)
  from monthly_zero_or_rounded [of exampleTermStore "''key-1''" 2024 1 19727]
  have jan: "calculateMonthlyAttendance exampleTermStore ''key-1'' 2024 1 19727 = 50"
    by (simp add: cw cp Math_round_def)
  from after feb jan show ?thesis by blast
qed

subsection \<open>Session percentage: the window ends today\<close>

text \<open>
  C3. When the end date of the resolved window is after today, the session calculation
  counts the days from the start date up to and including today and no later day: its
  counters are those of the dates \<open>[s..today]\<close>, and the loop run with the stored end
  date gives what the loop run with today as the end date gives.
\<close>

theorem sessionAttendance_clamped_to_today:
  assumes "sessionWindow (getUserData st k) hint today cy = (s, e, lbl)"
    and "today < e"
  shows "calculateSessionAttendance st k hint today cy =
           \<lparr>percentage = percentageOf (countPresent (getUserData st k) today [s..today])
                           (countWorking (getUserData st k) today [s..today]),
            sessionLabel = lbl,
            presentDays = countPresent (getUserData st k) today [s..today],
            totalWorkingDays = countWorking (getUserData st k) today [s..today]\<rparr> \<and>
         sessionLoop (getUserData st k) e today s (0, 0) =
           sessionLoop (getUserData st k) today today s (0, 0)"
proof -
  from assms(2) have m: "min e today = today" by simp
  have loop: "sessionLoop (getUserData st k) e today s (0, 0) =
      (countPresent (getUserData st k) today [s..today],
       countWorking (getUserData st k) today [s..today])"
    by (simp add: sessionLoop_counts m)
  have loop': "sessionLoop (getUserData st k) today today s (0, 0) =
      (countPresent (getUserData st k) today [s..today],
       countWorking (getUserData st k) today [s..today])"
    by (simp add: sessionLoop_counts)
  have "calculateSessionAttendance st k hint today cy =
           \<lparr>percentage = percentageOf (countPresent (getUserData st k) today [s..today])
                           (countWorking (getUserData st k) today [s..today]),
            sessionLabel = lbl,
            presentDays = countPresent (getUserData st k) today [s..today],
            totalWorkingDays = countWorking (getUserData st k) today [s..today]\<rparr>"
    by (simp add: calculateSessionAttendance_def assms(1) loop Let_def)
  with loop loop' show ?thesis by simp
qed

lemma exampleTerm_window:
  "sessionWindow (getUserData exampleTermStore ''key-1'') None 19727 2024 =
     (19723, 19753, ''Term1'')"
  by (simp add: exampleTerm_doc sessionWindow_def emptyDoc_def)

text \<open>
  Term1 ends on 2024-01-31 (day 19753); on 2024-01-05 the result is 2 present days of 4
  working days, 50 percent, and the record of the 8th is not counted.
\<close>

theorem sessionAttendance_clamped_to_today_witness:
  "sessionWindow (getUserData exampleTermStore ''key-1'') None 19727 2024 =
     (19723, 19753, ''Term1'') \<and> (19727 :: int) < 19753 \<and>
   calculateSessionAttendance exampleTermStore ''key-1'' None 19727 2024 =
     \<lparr>percentage = 50, sessionLabel = ''Term1'', presentDays = 2, totalWorkingDays = 4\<rparr>"
proof -
  have lt: "(19727 :: int) < 19753" by simp
  have cp: "countPresent (getUserData exampleTermStore ''key-1'') 19727 [19723..19727] = 2"
    by (simp add: exampleTerm_doc countPresent_def specWorkingDay_def emptyDoc_def getDay_def
        isHoliday_def isNotEnrolled_def isPresent_def)
  have cw: "countWorking (getUserData exampleTermStore ''key-1'') 19727 [19723..19727] = 4"
    by (simp add: exampleTerm_doc countWorking_def specWorkingDay_def emptyDoc_def getDay_def
        isHoliday_def isNotEnrolled_def)
  have pc: "percentageOf 2 4 = 50"
    by code_simp
  note clamped =
    sessionAttendance_clamped_to_today [OF exampleTerm_window lt, unfolded cp cw pc]
  from clamped exampleTerm_window lt show ?thesis by blast
qed

text \<open>
  X2. For every resolved window the session calculation counts the working days of the
  specification among the dates from the start date to the earlier of the end date and
  today.
\<close>

theorem sessionAttendance_counts:
  assumes "sessionWindow (getUserData st k) hint today cy = (s, e, lbl)"
  shows "calculateSessionAttendance st k hint today cy =
           \<lparr>percentage = percentageOf (countPresent (getUserData st k) today [s..min e today])
                           (countWorking (getUserData st k) today [s..min e today]),
            sessionLabel = lbl,
            presentDays = countPresent (getUserData st k) today [s..min e today],
            totalWorkingDays = countWorking (getUserData st k) today [s..min e today]\<rparr>"
  by (simp add: calculateSessionAttendance_def assms sessionLoop_counts Let_def)

lemma exampleScenario_doc:
  "getUserData exampleScenarioStore ''key-1'' = emptyDoc\<lparr>
        records := Some [19723 \<mapsto> True, 19724 \<mapsto> False, 19726 \<mapsto> True, 19727 \<mapsto> False],
        holidays := Some [\<lparr>hdate = 19725, hname = ''New Year''\<rparr>],
        sessions := Some [\<lparr>name = ''Term1'', code = ''term1ab12'', startDate = Some 19723,
                            endDate = Some 19727, createdAt = 1000, isSelected = False\<rparr>]\<rparr>"
  by (simp add: exampleScenarioStore_def getUserData_def)

lemma exampleScenario_window:
  "sessionWindow (getUserData exampleScenarioStore ''key-1'') (Some ''term1'') 19730 2024 =
     (19723, 19727, ''Term1'')"
  by (simp add: exampleScenario_doc sessionWindow_def emptyDoc_def toLowerCase_def lowerChar_def)

text \<open>
  The scenario of section 8, asked for by name on 2024-01-08: 2 present days of 4 working
  days, 50 percent.
\<close>

theorem sessionAttendance_counts_witness:
  "sessionWindow (getUserData exampleScenarioStore ''key-1'') (Some ''term1'') 19730 2024 =
     (19723, 19727, ''Term1'') \<and>
   calculateSessionAttendance exampleScenarioStore ''key-1'' (Some ''term1'') 19730 2024 =
     \<lparr>percentage = 50, sessionLabel = ''Term1'', presentDays = 2, totalWorkingDays = 4\<rparr>"
proof -
  have m: "min (19727 :: int) 19730 = 19727" by simp
  have cp: "countPresent (getUserData exampleScenarioStore ''key-1'') 19730 [19723..19727] = 2"
    by (simp add: exampleScenario_doc countPresent_def specWorkingDay_def emptyDoc_def getDay_def
        isHoliday_def isNotEnrolled_def isPresent_def)
  have cw: "countWorking (getUserData exampleScenarioStore ''key-1'') 19730 [19723..19727] = 4"
    by (simp add: exampleScenario_doc countWorking_def specWorkingDay_def emptyDoc_def getDay_def
        isHoliday_def isNotEnrolled_def)
  have pc: "percentageOf 2 4 = 50"
    by code_simp
  note inst = sessionAttendance_counts [OF exampleScenario_window, unfolded m cp cw pc]
  from inst exampleScenario_window show ?thesis by blast
qed

subsection \<open>Sessions: the stored list\<close>

lemma getAvailableSessions_update:
  "getAvailableSessions (updateUserData st k (sessionsUpdate xs)) k = xs"
  by (simp add: getAvailableSessions_def getUserData_updateUserData mergeDoc_def
      sessionsUpdate_def emptyDoc_def orElse_def)

lemma updateUserData_same_sessions:
  "updateUserData (updateUserData st k (sessionsUpdate xs)) k (sessionsUpdate xs) =
     updateUserData st k (sessionsUpdate xs)"
  by (simp add: updateUserData_def getUserData_def mergeDoc_def sessionsUpdate_def emptyDoc_def
      orElse_def)

lemma sessions_updateUserData:
  "sessions (getUserData (updateUserData st k (sessionsUpdate xs)) k) = Some xs"
  by (simp add: getUserData_updateUserData mergeDoc_def sessionsUpdate_def emptyDoc_def
      orElse_def)

lemma find_Some_mem: "List.find P xs = Some x \<Longrightarrow> x \<in> set xs \<and> P x"
  by (induction xs) (auto split: if_splits)

lemma filter_selected_selectByCode:
  "filter isSelected (selectByCode c ss) =
     map (\<lambda>s. s\<lparr>isSelected := True\<rparr>) (filter (\<lambda>s. code s = c) ss)"
  by (induction ss) (auto simp: selectByCode_def)

lemma selectByCode_idem: "selectByCode c (selectByCode c ss) = selectByCode c ss"
  by (simp add: selectByCode_def)

lemma presetMatches_selected [simp]:
  "presetMatches ident (s\<lparr>isSelected := b\<rparr>) = presetMatches ident s"
  by (simp add: presetMatches_def)

lemma find_selectByCode:
  "List.find (presetMatches ident) (selectByCode c ss) =
     map_option (\<lambda>s. s\<lparr>isSelected := (code s = c)\<rparr>) (List.find (presetMatches ident) ss)"
  by (induction ss) (auto simp: selectByCode_def)

lemma singleton_filter_mem:
  assumes "length (filter P xs) = 1" and "x \<in> set xs" and "P x"
  shows "filter P xs = [x]"
proof -
  from assms(1) obtain y where y: "filter P xs = [y]"
    by (cases "filter P xs") auto
  from assms(2,3) have "x \<in> set (filter P xs)" by simp
  with y show ?thesis by simp
qed

subsection \<open>Selecting the preset\<close>

text \<open>
  C2 (as amended). When \<open>setAlexaPresetSession\<close> finds a session and no other
  session of the list carries the code of the session found, the stored list has exactly
  one selected session, the session found; a second call with the same identifier finds
  that session again (now selected), leaves the store as it is, and the list still has
  exactly that one selected session.
\<close>

theorem setPreset_exactly_matched:
  assumes "setAlexaPresetSession st k ident = (Inr found, st')"
    and "length (filter (\<lambda>s. code s = code found) (getAvailableSessions st k)) = 1"
  shows "filter isSelected (getAvailableSessions st' k) = [found\<lparr>isSelected := True\<rparr>] \<and>
         setAlexaPresetSession st' k ident = (Inr (found\<lparr>isSelected := True\<rparr>), st') \<and>
         filter isSelected (getAvailableSessions (snd (setAlexaPresetSession st' k ident)) k) =
           [found\<lparr>isSelected := True\<rparr>]"
proof -
  from assms(1) obtain ss where ss: "sessions (getUserData st k) = Some ss" "ss \<noteq> []"
    and fnd: "List.find (presetMatches ident) ss = Some found"
    and st': "st' = updateUserData st k (sessionsUpdate (selectByCode (code found) ss))"
    by (auto simp: setAlexaPresetSession_def split: option.splits if_splits)
  from ss have avail: "getAvailableSessions st k = ss"
    by (simp add: getAvailableSessions_def)
  from find_Some_mem [OF fnd] have mem: "found \<in> set ss" by simp
  from assms(2) avail mem have one: "filter (\<lambda>s. code s = code found) ss = [found]"
    by (simp add: singleton_filter_mem)
  have sel: "filter isSelected (getAvailableSessions st' k) = [found\<lparr>isSelected := True\<rparr>]"
    by (simp add: st' getAvailableSessions_update filter_selected_selectByCode one)
  have nonempty: "selectByCode (code found) ss \<noteq> []"
    using ss(2) by (simp add: selectByCode_def)
  have again: "setAlexaPresetSession st' k ident = (Inr (found\<lparr>isSelected := True\<rparr>), st')"
    using nonempty
    by (simp add: setAlexaPresetSession_def st' sessions_updateUserData find_selectByCode fnd
        selectByCode_idem updateUserData_same_sessions)
  from sel again show ?thesis by simp
qed

text \<open>
  Without the condition on the codes the claim fails: when two sessions carry the code
  \<open>fall1ab2\<close>, selecting Fall leaves two selected sessions.
\<close>

theorem setPreset_duplicate_code_counterexample:
  "fst (setAlexaPresetSession exampleDupCodeStore ''key-1'' ''Fall'') =
     Inr \<lparr>name = ''Fall'', code = ''fall1ab2'', startDate = Some 19601, endDate = Some 19722,
           createdAt = 2000, isSelected = False\<rparr> \<and>
   length (filter isSelected
     (getAvailableSessions (snd (setAlexaPresetSession exampleDupCodeStore ''key-1'' ''Fall''))
        ''key-1'')) = 2"
  by (simp add: setAlexaPresetSession_def exampleDupCodeStore_def getUserData_def emptyDoc_def
      presetMatches_def getAvailableSessions_update selectByCode_def toLowerCase_def lowerChar_def)

lemma exampleTwoFall_sessions:
  "getAvailableSessions exampleTwoFallStore ''key-1'' =
        [\<lparr>name = ''Fall'', code = ''fall1ab2'', startDate = Some 19601, endDate = Some 19722,
           createdAt = 2000, isSelected = False\<rparr>,
         \<lparr>name = ''Fall'', code = ''fall9zz9'', startDate = Some 19967, endDate = Some 20088,
           createdAt = 1000, isSelected = True\<rparr>]"
  by (simp add: exampleTwoFallStore_def getAvailableSessions_def getUserData_def emptyDoc_def)

lemma exampleTwoFall_setPreset:
  "setAlexaPresetSession exampleTwoFallStore ''key-1'' ''fall1ab2'' =
     (Inr \<lparr>name = ''Fall'', code = ''fall1ab2'', startDate = Some 19601, endDate = Some 19722,
           createdAt = 2000, isSelected = False\<rparr>,
      updateUserData exampleTwoFallStore ''key-1''
        (sessionsUpdate (selectByCode ''fall1ab2''
           (getAvailableSessions exampleTwoFallStore ''key-1''))))"
  by (simp add: setAlexaPresetSession_def exampleTwoFall_sessions presetMatches_def)
     (simp add: exampleTwoFallStore_def getUserData_def emptyDoc_def presetMatches_def)

text \<open>
  With the two sessions named Fall, selecting by the code of the first clears the second
  and selects the first.
\<close>

theorem setPreset_exactly_matched_witness:
  "length (filter (\<lambda>s. code s = ''fall1ab2'')
      (getAvailableSessions exampleTwoFallStore ''key-1'')) = 1 \<and>
   filter isSelected (getAvailableSessions
      (snd (setAlexaPresetSession exampleTwoFallStore ''key-1'' ''fall1ab2'')) ''key-1'') =
     [\<lparr>name = ''Fall'', code = ''fall1ab2'', startDate = Some 19601, endDate = Some 19722,
        createdAt = 2000, isSelected = True\<rparr>]"
proof -
  have one: "length (filter (\<lambda>s. code s = code \<lparr>name = ''Fall'', code = ''fall1ab2'',
        startDate = Some 19601, endDate = Some 19722, createdAt = 2000, isSelected = False\<rparr>)
      (getAvailableSessions exampleTwoFallStore ''key-1'')) = 1"
    by (simp add: exampleTwoFall_sessions)
  from setPreset_exactly_matched [OF exampleTwoFall_setPreset one] one
  show ?thesis
    by (simp add: exampleTwoFall_setPreset)
qed

lemma findIndex_Some:
  "findIndex P xs = Some i \<Longrightarrow> i < length xs \<and> P (xs ! i) \<and> (\<forall>j<i. \<not> P (xs ! j))"
proof (induction xs arbitrary: i)
  case Nil
  then show ?case by simp
next
  case (Cons x xs)
  show ?case
  proof (cases "P x")
    case True
    with Cons.prems show ?thesis by simp
  next
    case False
    with Cons.prems obtain i' where i': "findIndex P xs = Some i'" "i = Suc i'"
      by auto
    from Cons.IH [OF i'(1)] False i'(2) show ?thesis
      by (auto simp: nth_Cons split: nat.splits)
  qed
qed

lemma findIndex_first:
  "i < length xs \<Longrightarrow> P (xs ! i) \<Longrightarrow> (\<forall>j<i. \<not> P (xs ! j)) \<Longrightarrow> findIndex P xs = Some i"
proof (induction xs arbitrary: i)
  case Nil
  then show ?case by simp
next
  case (Cons x xs)
  show ?case
  proof (cases i)
    case 0
    with Cons.prems show ?thesis by simp
  next
    case (Suc i')
    with Cons.prems have "\<not> P x" by auto
    moreover from Suc Cons.prems have "findIndex P xs = Some i'"
      by (intro Cons.IH) auto
    ultimately show ?thesis using Suc by simp
  qed
qed

lemma findIndex_None: "findIndex P xs = None \<longleftrightarrow> (\<forall>x \<in> set xs. \<not> P x)"
  by (induction xs) auto

lemma findIndex_exists:
  "list_ex P xs \<Longrightarrow> \<exists>i. findIndex P xs = Some i"
  by (cases "findIndex P xs") (auto simp: findIndex_None list_ex_iff)

lemma length_selectByCode [simp]: "length (selectByCode c ss) = length ss"
  by (simp add: selectByCode_def)

lemma length_sortByCreatedAtDesc [simp]: "length (sortByCreatedAtDesc ss) = length ss"
  by (simp add: sortByCreatedAtDesc_def)

lemma set_sortByCreatedAtDesc [simp]: "set (sortByCreatedAtDesc ss) = set ss"
  by (simp add: sortByCreatedAtDesc_def)

lemma mset_sortByCreatedAtDesc [simp]: "mset (sortByCreatedAtDesc ss) = mset ss"
  by (simp add: sortByCreatedAtDesc_def)

lemma sorted_sortByCreatedAtDesc:
  "sorted_wrt (\<lambda>a b. createdAt b \<le> createdAt a) (sortByCreatedAtDesc ss)"
proof -
  have "sorted (map (\<lambda>s. - createdAt s) (sortByCreatedAtDesc ss))"
    by (simp add: sortByCreatedAtDesc_def)
  then show ?thesis by (simp add: sorted_map)
qed

lemma saveSession_returned:
  "fst (saveSession st k nm sD eD pre rnd now) = sessionDataOf nm (generateSessionCode nm rnd) sD eD now pre"
  by (simp add: saveSession_def sessionDataOf_def Let_def)

lemma saveSession_stored_match:
  assumes "findIndex (saveMatches nm (generateSessionCode nm rnd)) (getAvailableSessions st k)
             = Some i"
  shows "getAvailableSessions (snd (saveSession st k nm sD eD pre rnd now)) k =
     sortByCreatedAtDesc
       (if pre then selectByCode (generateSessionCode nm rnd)
                      ((getAvailableSessions st k)[i := sessionDataOf nm (generateSessionCode nm rnd) sD eD now pre])
        else (getAvailableSessions st k)[i := sessionDataOf nm (generateSessionCode nm rnd) sD eD now pre])"
  using assms
  by (simp add: saveSession_def getAvailableSessions_update sessionDataOf_def Let_def)

lemma saveMatches_of_name:
  "toLowerCase (name s) = toLowerCase nm \<Longrightarrow> saveMatches nm c s"
  by (simp add: saveMatches_def)

lemma code_Fall: "generateSessionCode ''Fall'' ''0.k3f9'' = ''fallk3f9''"
  by (simp add: generateSessionCode_def substring_def isAlnumLower_def toLowerCase_def
      lowerChar_def)

lemma exampleNameLikeCode_sessions:
  "getAvailableSessions exampleNameLikeCodeStore ''key-1'' =
        [\<lparr>name = ''Fall1ab2'', code = ''fall1ab2x7q2'', startDate = Some 19601,
           endDate = Some 19722, createdAt = 2000, isSelected = False\<rparr>,
         \<lparr>name = ''Fall'', code = ''fall1ab2'', startDate = Some 19967, endDate = Some 20088,
           createdAt = 1000, isSelected = False\<rparr>]"
  by (simp add: exampleNameLikeCodeStore_def getAvailableSessions_def getUserData_def emptyDoc_def)

subsection \<open>Saving a session under an existing name\<close>

lemma length_filter_update_same:
  "i < length xs \<Longrightarrow> P (xs ! i) \<Longrightarrow> P y \<Longrightarrow>
     length (filter P (xs[i := y])) = length (filter P xs)"
proof (induction xs arbitrary: i)
  case Nil
  then show ?case by simp
next
  case (Cons x xs)
  show ?case
  proof (cases i)
    case 0
    with Cons.prems show ?thesis by simp
  next
    case (Suc i')
    with Cons.prems have "length (filter P (xs[i' := y])) = length (filter P xs)"
      by (intro Cons.IH) simp_all
    with Suc show ?thesis by simp
  qed
qed

lemma filter_name_selectByCode:
  "length (filter (\<lambda>s. toLowerCase (name s) = n) (selectByCode c ss)) =
     length (filter (\<lambda>s. toLowerCase (name s) = n) ss)"
  by (induction ss) (simp_all add: selectByCode_def)

lemma filter_sortByCreatedAtDesc:
  "length (filter P (sortByCreatedAtDesc ss)) = length (filter P ss)"
  by (simp add: sortByCreatedAtDesc_def filter_sort)

text \<open>
  C5 (as amended). \<open>saveSession\<close> looks for the first session that has the new name, up
  to case, or the newly generated code. When the session at index \<open>i\<close> has the new name
  up to case and no session before it has that name or carries the generated code, the
  session at \<open>i\<close> is the one replaced and nothing is appended: the stored list has the
  length of the old one; the returned entry carries the new name, the generated code, the
  new start and end dates and the new creation time; the stored list is a rearrangement of
  the old list with exactly the session at \<open>i\<close> overwritten by that entry (after the
  preset pass, when the session is saved as preset); the number of sessions of that name
  is unchanged; the new entry is in the stored list; and the stored list is sorted by
  creation time, newest first.
\<close>

theorem saveSession_replaces_first_of_name:
  assumes "i < length (getAvailableSessions st k)"
    and "toLowerCase (name (getAvailableSessions st k ! i)) = toLowerCase nm"
    and "\<forall>j<i. toLowerCase (name (getAvailableSessions st k ! j)) \<noteq> toLowerCase nm \<and>
               code (getAvailableSessions st k ! j) \<noteq> generateSessionCode nm rnd"
  shows "(let ss = getAvailableSessions st k;
              c = generateSessionCode nm rnd;
              sd = fst (saveSession st k nm sD eD pre rnd now);
              res = getAvailableSessions (snd (saveSession st k nm sD eD pre rnd now)) k
          in length res = length ss \<and>
             name sd = nm \<and> code sd = c \<and> startDate sd = sD \<and> endDate sd = eD \<and>
             createdAt sd = now \<and>
             mset res = mset (if pre then selectByCode c (ss[i := sd]) else ss[i := sd]) \<and>
             length (filter (\<lambda>s. toLowerCase (name s) = toLowerCase nm) res) =
               length (filter (\<lambda>s. toLowerCase (name s) = toLowerCase nm) ss) \<and>
             list_ex (\<lambda>e. name e = nm \<and> code e = c \<and> startDate e = sD \<and> endDate e = eD \<and>
                          createdAt e = now) res \<and>
             sorted_wrt (\<lambda>a b. createdAt b \<le> createdAt a) res)"
proof -
  let ?ss = "getAvailableSessions st k"
  let ?c = "generateSessionCode nm rnd"
  let ?sd = "sessionDataOf nm ?c sD eD now pre"
  let ?res = "getAvailableSessions (snd (saveSession st k nm sD eD pre rnd now)) k"
  let ?P = "\<lambda>s. toLowerCase (name s) = toLowerCase nm"
  let ?u = "if pre then selectByCode ?c (?ss[i := ?sd]) else ?ss[i := ?sd]"
  from assms(2) have im: "saveMatches nm ?c (?ss ! i)" by (rule saveMatches_of_name)
  from assms(3) have first: "\<forall>j<i. \<not> saveMatches nm ?c (?ss ! j)"
    by (simp add: saveMatches_def)
  from assms(1) im first have idx: "findIndex (saveMatches nm ?c) ?ss = Some i"
    by (simp add: findIndex_first)
  have sd: "fst (saveSession st k nm sD eD pre rnd now) = ?sd"
    by (rule saveSession_returned)
  have stored: "?res = sortByCreatedAtDesc ?u"
    by (rule saveSession_stored_match [OF idx])
  have len: "length ?res = length ?ss"
    by (simp add: stored)
  have fields: "name ?sd = nm \<and> code ?sd = ?c \<and> startDate ?sd = sD \<and> endDate ?sd = eD \<and>
      createdAt ?sd = now"
    by (simp add: sessionDataOf_def)
  have perm: "mset ?res = mset ?u"
    by (simp only: stored mset_sortByCreatedAtDesc)
  have Psd: "?P ?sd" by (simp add: sessionDataOf_def)
  have "length (filter ?P ?u) = length (filter ?P (?ss[i := ?sd]))"
    by (simp add: filter_name_selectByCode)
  also have "\<dots> = length (filter ?P ?ss)"
    using assms(1,2) Psd by (rule length_filter_update_same)
  finally have cnt: "length (filter ?P ?res) = length (filter ?P ?ss)"
    by (simp only: stored filter_sortByCreatedAtDesc)
  have entry: "list_ex (\<lambda>e. name e = nm \<and> code e = ?c \<and> startDate e = sD \<and> endDate e = eD \<and>
                          createdAt e = now) ?res"
  proof -
    let ?e = "if pre then ?sd\<lparr>isSelected := (code ?sd = ?c)\<rparr> else ?sd"
    have "?sd \<in> set (?ss[i := ?sd])"
      using assms(1) by (simp add: set_update_memI)
    then have "?e \<in> set ?u"
      by (auto simp: selectByCode_def)
    then have "?e \<in> set ?res"
      by (simp only: stored set_sortByCreatedAtDesc)
    moreover have "name ?e = nm \<and> code ?e = ?c \<and> startDate ?e = sD \<and> endDate ?e = eD \<and>
        createdAt ?e = now"
      by (simp add: sessionDataOf_def)
    ultimately show ?thesis
      unfolding list_ex_iff by blast
  qed
  have srt: "sorted_wrt (\<lambda>a b. createdAt b \<le> createdAt a) ?res"
    by (simp add: stored sorted_sortByCreatedAtDesc)
  from len fields perm cnt entry srt show ?thesis
    unfolding Let_def sd by blast
qed

lemma code_fall_lower: "generateSessionCode ''fall'' ''0.k3f9'' = ''fallk3f9''"
  by (simp add: generateSessionCode_def substring_def isAlnumLower_def toLowerCase_def
      lowerChar_def)

text \<open>
  Saving \<open>fall\<close> over the sessions Fall1ab2 and Fall: the second session is the first of
  that name, the first session has neither the name nor the generated code, and the
  stored list keeps two sessions, one of them of that name.
\<close>

theorem saveSession_replaces_first_of_name_witness:
  "toLowerCase (name (getAvailableSessions exampleNameLikeCodeStore ''key-1'' ! 1)) =
     toLowerCase ''fall'' \<and>
   toLowerCase (name (getAvailableSessions exampleNameLikeCodeStore ''key-1'' ! 0)) \<noteq>
     toLowerCase ''fall'' \<and>
   code (getAvailableSessions exampleNameLikeCodeStore ''key-1'' ! 0) \<noteq>
     generateSessionCode ''fall'' ''0.k3f9'' \<and>
   (let res = getAvailableSessions
        (snd (saveSession exampleNameLikeCodeStore ''key-1'' ''fall'' (Some 20332) (Some 20453)
                False ''0.k3f9'' 5000)) ''key-1''
    in length res = 2 \<and>
       length (filter (\<lambda>s. toLowerCase (name s) = toLowerCase ''fall'') res) = 1 \<and>
       list_ex (\<lambda>e. name e = ''fall'' \<and> code e = ''fallk3f9'' \<and> startDate e = Some 20332 \<and>
                    endDate e = Some 20453 \<and> createdAt e = 5000) res \<and>
       sorted_wrt (\<lambda>a b. createdAt b \<le> createdAt a) res)"
proof -
  have a1: "1 < length (getAvailableSessions exampleNameLikeCodeStore ''key-1'')"
    by (simp add: exampleNameLikeCode_sessions)
  have a2: "toLowerCase (name (getAvailableSessions exampleNameLikeCodeStore ''key-1'' ! 1)) =
     toLowerCase ''fall''"
    by (simp add: exampleNameLikeCode_sessions toLowerCase_def lowerChar_def)
  have b1: "toLowerCase (name (getAvailableSessions exampleNameLikeCodeStore ''key-1'' ! 0)) \<noteq>
     toLowerCase ''fall''"
    by (simp add: exampleNameLikeCode_sessions toLowerCase_def lowerChar_def)
  have b2: "code (getAvailableSessions exampleNameLikeCodeStore ''key-1'' ! 0) \<noteq>
     generateSessionCode ''fall'' ''0.k3f9''"
    by (simp add: exampleNameLikeCode_sessions code_fall_lower)
  from b1 b2 have a3: "\<forall>j<1.
      toLowerCase (name (getAvailableSessions exampleNameLikeCodeStore ''key-1'' ! j)) \<noteq>
        toLowerCase ''fall'' \<and>
      code (getAvailableSessions exampleNameLikeCodeStore ''key-1'' ! j) \<noteq>
        generateSessionCode ''fall'' ''0.k3f9''"
    by simp
  have len: "length (getAvailableSessions exampleNameLikeCodeStore ''key-1'') = 2"
    by (simp add: exampleNameLikeCode_sessions)
  have cnt: "length (filter (\<lambda>s. toLowerCase (name s) = toLowerCase ''fall'')
      (getAvailableSessions exampleNameLikeCodeStore ''key-1'')) = 1"
    by (simp add: exampleNameLikeCode_sessions toLowerCase_def lowerChar_def)
  note inst = saveSession_replaces_first_of_name [OF a1 a2 a3, of "Some 20332" "Some 20453"
      False 5000, unfolded Let_def code_fall_lower len cnt]
  from inst a2 b1 b2 show ?thesis
    unfolding Let_def by blast
qed

lemma exampleCodeClash_sessions:
  "getAvailableSessions exampleCodeClashStore ''key-1'' =
        [\<lparr>name = ''Fall!'', code = ''fallk3f9'', startDate = Some 19601, endDate = Some 19722,
           createdAt = 2000, isSelected = False\<rparr>,
         \<lparr>name = ''Fall'', code = ''fall1ab2'', startDate = Some 19967, endDate = Some 20088,
           createdAt = 1000, isSelected = False\<rparr>]"
  by (simp add: exampleCodeClashStore_def getAvailableSessions_def getUserData_def emptyDoc_def)

text \<open>
  Without the condition on the code the session of that name need not be the one
  replaced. The list holds Fall! with the code \<open>fallk3f9\<close> before Fall, and Fall is saved
  with new dates and the random string \<open>0.k3f9\<close>, so that the generated code is that of
  Fall!. The search stops at Fall!, which is overwritten: the stored list has a new
  session Fall beside the old session Fall, which keeps its old dates, and Fall! is gone.
\<close>

theorem saveSession_code_clash_counterexample:
  "map name (getAvailableSessions exampleCodeClashStore ''key-1'') = [''Fall!'', ''Fall''] \<and>
   getAvailableSessions
     (snd (saveSession exampleCodeClashStore ''key-1'' ''Fall'' (Some 20332) (Some 20453) False
             ''0.k3f9'' 5000)) ''key-1'' =
     [\<lparr>name = ''Fall'', code = ''fallk3f9'', startDate = Some 20332, endDate = Some 20453,
        createdAt = 5000, isSelected = False\<rparr>,
      \<lparr>name = ''Fall'', code = ''fall1ab2'', startDate = Some 19967, endDate = Some 20088,
        createdAt = 1000, isSelected = False\<rparr>]"
proof -
  have idx: "findIndex (saveMatches ''Fall'' (generateSessionCode ''Fall'' ''0.k3f9''))
      (getAvailableSessions exampleCodeClashStore ''key-1'') = Some 0"
    by (simp add: exampleCodeClash_sessions saveMatches_def code_Fall)
  show ?thesis
    by (simp add: saveSession_stored_match [OF idx])
       (simp add: exampleCodeClash_sessions code_Fall sessionDataOf_def sortByCreatedAtDesc_def)
qed

lemma saveSession_stored_new:
  assumes "findIndex (saveMatches nm (generateSessionCode nm rnd)) (getAvailableSessions st k)
             = None"
  shows "getAvailableSessions (snd (saveSession st k nm sD eD pre rnd now)) k =
     sortByCreatedAtDesc
       (if pre then selectByCode (generateSessionCode nm rnd)
                      (getAvailableSessions st k @
                         [sessionDataOf nm (generateSessionCode nm rnd) sD eD now pre])
        else getAvailableSessions st k @
               [sessionDataOf nm (generateSessionCode nm rnd) sD eD now pre])"
  using assms
  by (simp add: saveSession_def getAvailableSessions_update Let_def)

lemma map_code_selectByCode [simp]: "map code (selectByCode c ss) = map code ss"
  by (simp add: selectByCode_def)

lemma image_mset_code_selectByCode [simp]:
  "image_mset code (mset (selectByCode c ss)) = image_mset code (mset ss)"
  by (simp add: selectByCode_def multiset.map_comp comp_def)

lemma code_Term1: "generateSessionCode ''Term1'' ''0.zz99'' = ''term1zz99''"
  by (simp add: generateSessionCode_def substring_def isAlnumLower_def toLowerCase_def
      lowerChar_def)

lemma exampleTerm_sessions:
  "getAvailableSessions exampleTermStore ''key-1'' =
     [\<lparr>name = ''Term1'', code = ''term1ab12'', startDate = Some 19723,
        endDate = Some 19753, createdAt = 1000, isSelected = True\<rparr>]"
  by (simp add: getAvailableSessions_def exampleTerm_doc emptyDoc_def)

subsection \<open>The code of a session that is saved again\<close>

text \<open>
  The claim that a replacement keeps the code of the session it replaces fails: Term1 is
  stored with the code \<open>term1ab12\<close>; saved again under the same name with another
  random string, it is stored with the code \<open>term1zz99\<close>.
\<close>

theorem saveSession_code_not_kept_counterexample:
  "map code (getAvailableSessions exampleTermStore ''key-1'') = [''term1ab12''] \<and>
   map name (getAvailableSessions exampleTermStore ''key-1'') = [''Term1''] \<and>
   code (fst (saveSession exampleTermStore ''key-1'' ''Term1'' (Some 19723) (Some 19753) False
                ''0.zz99'' 5000)) = ''term1zz99'' \<and>
   map code (getAvailableSessions
      (snd (saveSession exampleTermStore ''key-1'' ''Term1'' (Some 19723) (Some 19753) False
              ''0.zz99'' 5000)) ''key-1'') = [''term1zz99'']"
proof -
  have idx: "findIndex (saveMatches ''Term1'' (generateSessionCode ''Term1'' ''0.zz99''))
      (getAvailableSessions exampleTermStore ''key-1'') = Some 0"
    by (simp add: exampleTerm_sessions saveMatches_def)
  show ?thesis
    by (simp add: saveSession_stored_match [OF idx] saveSession_returned)
       (simp add: exampleTerm_sessions code_Term1 sessionDataOf_def sortByCreatedAtDesc_def)
qed

text \<open>
  C6 (as amended). \<open>saveSession\<close> generates a code on every call, for a replacement
  as for a new session: the code is the first eight characters of the lower-cased name's
  letters and digits followed by four characters of the random string; the session
  returned and an entry of the stored list carry it; and when a session of the list
  matches, the stored codes are the old codes with the code at the first matching
  position replaced by the generated one.
\<close>

theorem saveSession_code_always_generated:
  "(let c = generateSessionCode nm rnd;
        ss = getAvailableSessions st k;
        res = getAvailableSessions (snd (saveSession st k nm sD eD pre rnd now)) k
    in c = take 8 (filter isAlnumLower (toLowerCase nm)) @ take 4 (drop 2 rnd) \<and>
       code (fst (saveSession st k nm sD eD pre rnd now)) = c \<and>
       list_ex (\<lambda>e. name e = nm \<and> code e = c \<and> createdAt e = now) res \<and>
       (\<forall>i. findIndex (saveMatches nm c) ss = Some i \<longrightarrow>
            mset (map code res) = mset (map code (ss[i := fst (saveSession st k nm sD eD pre rnd now)]))))"
proof -
  let ?c = "generateSessionCode nm rnd"
  let ?ss = "getAvailableSessions st k"
  let ?sd = "sessionDataOf nm ?c sD eD now pre"
  let ?res = "getAvailableSessions (snd (saveSession st k nm sD eD pre rnd now)) k"
  let ?e = "if pre then ?sd\<lparr>isSelected := (code ?sd = ?c)\<rparr> else ?sd"
  have shape: "?c = take 8 (filter isAlnumLower (toLowerCase nm)) @ take 4 (drop 2 rnd)"
    by (simp add: generateSessionCode_def substring_def)
  have ret: "code (fst (saveSession st k nm sD eD pre rnd now)) = ?c"
    by (simp add: saveSession_returned sessionDataOf_def)
  have e_ok: "name ?e = nm \<and> code ?e = ?c \<and> createdAt ?e = now"
    by (simp add: sessionDataOf_def)
  have "?e \<in> set ?res"
  proof (cases "findIndex (saveMatches nm ?c) ?ss")
    case None
    have "?e \<in> set (if pre then selectByCode ?c (?ss @ [?sd]) else ?ss @ [?sd])"
      by (auto simp: selectByCode_def)
    then show ?thesis
      by (simp only: saveSession_stored_new [OF None] set_sortByCreatedAtDesc)
  next
    case (Some i)
    from findIndex_Some [OF Some] have "i < length ?ss" by simp
    then have "?sd \<in> set (?ss[i := ?sd])" by (simp add: set_update_memI)
    then have "?e \<in> set (if pre then selectByCode ?c (?ss[i := ?sd]) else ?ss[i := ?sd])"
      by (auto simp: selectByCode_def)
    then show ?thesis
      by (simp only: saveSession_stored_match [OF Some] set_sortByCreatedAtDesc)
  qed
  with e_ok have entry: "list_ex (\<lambda>e. name e = nm \<and> code e = ?c \<and> createdAt e = now) ?res"
    unfolding list_ex_iff by blast
  have codes: "mset (map code ?res) =
      mset (map code (?ss[i := fst (saveSession st k nm sD eD pre rnd now)]))"
    if "findIndex (saveMatches nm ?c) ?ss = Some i" for i
  proof -
    have "mset (map code ?res) = image_mset code (mset ?res)" by simp
    also have "mset ?res = mset (if pre then selectByCode ?c (?ss[i := ?sd]) else ?ss[i := ?sd])"
      by (simp only: saveSession_stored_match [OF that] mset_sortByCreatedAtDesc)
    also have "image_mset code \<dots> = mset (map code (?ss[i := ?sd]))"
      by (cases pre) simp_all
    finally show ?thesis by (simp only: saveSession_returned)
  qed
  from shape ret entry codes show ?thesis
    unfolding Let_def by blast
qed

text \<open>Term1 saved again: the only stored code is the new one.\<close>

theorem saveSession_code_always_generated_witness:
  "findIndex (saveMatches ''Term1'' (generateSessionCode ''Term1'' ''0.zz99''))
      (getAvailableSessions exampleTermStore ''key-1'') = Some 0 \<and>
   generateSessionCode ''Term1'' ''0.zz99'' = ''term1zz99'' \<and>
   code (fst (saveSession exampleTermStore ''key-1'' ''Term1'' (Some 19723) (Some 19753) False
                ''0.zz99'' 5000)) = ''term1zz99'' \<and>
   mset (map code (getAvailableSessions
      (snd (saveSession exampleTermStore ''key-1'' ''Term1'' (Some 19723) (Some 19753) False
              ''0.zz99'' 5000)) ''key-1'')) = {#''term1zz99''#}"
proof -
  have idx: "findIndex (saveMatches ''Term1'' (generateSessionCode ''Term1'' ''0.zz99''))
      (getAvailableSessions exampleTermStore ''key-1'') = Some 0"
    by (simp add: exampleTerm_sessions saveMatches_def)
  note inst = saveSession_code_always_generated [where nm = "''Term1''" and rnd = "''0.zz99''"
      and st = exampleTermStore and k = "''key-1''" and sD = "Some 19723" and eD = "Some 19753"
      and pre = False and now = 5000, unfolded Let_def]
  from inst idx have
    "code (fst (saveSession exampleTermStore ''key-1'' ''Term1'' (Some 19723) (Some 19753) False
                ''0.zz99'' 5000)) = generateSessionCode ''Term1'' ''0.zz99''"
    and "mset (map code (getAvailableSessions
      (snd (saveSession exampleTermStore ''key-1'' ''Term1'' (Some 19723) (Some 19753) False
              ''0.zz99'' 5000)) ''key-1'')) =
       mset (map code ((getAvailableSessions exampleTermStore ''key-1'')
         [0 := fst (saveSession exampleTermStore ''key-1'' ''Term1'' (Some 19723) (Some 19753)
                      False ''0.zz99'' 5000)]))"
    by blast+
  then show ?thesis
    using idx by (simp add: code_Term1 exampleTerm_sessions)
qed

lemma find_isSelected_None:
  "list_all (\<lambda>s. \<not> isSelected s) ss \<Longrightarrow> List.find (\<lambda>s. isSelected s) ss = None"
  by (simp add: find_None_iff list_all_iff)

subsection \<open>Saving the preset session again without the preset flag\<close>

text \<open>
  C10 (as amended). Let the session at position \<open>i\<close> be the only selected session,
  let its lower-cased name be the lower-cased new name, and let no earlier session of the
  list match the new name or carry the generated code. Then \<open>saveSession\<close> without
  the preset flag writes an unselected entry in its place and changes no other session,
  so the stored list has no selected session and the preset is gone.
\<close>

theorem saveSession_drops_preset:
  assumes "i < length (getAvailableSessions st k)"
    and "toLowerCase (name (getAvailableSessions st k ! i)) = toLowerCase nm"
    and "\<forall>j<i. \<not> saveMatches nm (generateSessionCode nm rnd) (getAvailableSessions st k ! j)"
    and "isSelected (getAvailableSessions st k ! i)"
    and "\<forall>j<length (getAvailableSessions st k). j \<noteq> i \<longrightarrow>
           \<not> isSelected (getAvailableSessions st k ! j)"
  shows "(let ss = getAvailableSessions st k;
              sd = fst (saveSession st k nm sD eD False rnd now);
              st' = snd (saveSession st k nm sD eD False rnd now);
              res = getAvailableSessions st' k
          in \<not> isSelected sd \<and> name sd = nm \<and>
             mset res = mset (ss[i := sd]) \<and>
             list_all (\<lambda>s. \<not> isSelected s) res \<and>
             getAlexaPresetSession st' k = None)"
proof -
  let ?ss = "getAvailableSessions st k"
  let ?c = "generateSessionCode nm rnd"
  let ?sd = "sessionDataOf nm ?c sD eD now False"
  let ?st' = "snd (saveSession st k nm sD eD False rnd now)"
  let ?res = "getAvailableSessions ?st' k"
  from assms(2) have "saveMatches nm ?c (?ss ! i)" by (rule saveMatches_of_name)
  with assms(1,3) have idx: "findIndex (saveMatches nm ?c) ?ss = Some i"
    by (simp add: findIndex_first)
  have stored: "?res = sortByCreatedAtDesc (?ss[i := ?sd])"
    using saveSession_stored_match [OF idx, of sD eD False now] by simp
  have sd: "fst (saveSession st k nm sD eD False rnd now) = ?sd"
    by (rule saveSession_returned)
  have notsel: "\<not> isSelected ?sd" and nm: "name ?sd = nm"
    by (simp_all add: sessionDataOf_def)
  have perm: "mset ?res = mset (?ss[i := ?sd])"
    by (simp add: stored)
  have "\<not> isSelected s" if "s \<in> set (?ss[i := ?sd])" for s
  proof -
    from that obtain j where j: "j < length ?ss" "s = (?ss[i := ?sd]) ! j"
      by (auto simp: in_set_conv_nth)
    show ?thesis
    proof (cases "j = i")
      case True
      with j notsel show ?thesis by simp
    next
      case False
      with j assms(5) show ?thesis by simp
    qed
  qed
  then have none: "list_all (\<lambda>s. \<not> isSelected s) ?res"
    by (simp add: stored list_all_iff)
  then have preset: "getAlexaPresetSession ?st' k = None"
    unfolding getAlexaPresetSession_def by (rule find_isSelected_None)
  from notsel nm perm none preset show ?thesis
    unfolding Let_def sd by blast
qed

lemma code_term1_lower: "generateSessionCode ''term1'' ''0.zz99'' = ''term1zz99''"
  by (simp add: generateSessionCode_def substring_def isAlnumLower_def toLowerCase_def
      lowerChar_def)

text \<open>Term1, the selected session, saved again as term1: no preset remains.\<close>

theorem saveSession_drops_preset_witness:
  "toLowerCase (name (getAvailableSessions exampleTermStore ''key-1'' ! 0)) = toLowerCase ''term1'' \<and>
   isSelected (getAvailableSessions exampleTermStore ''key-1'' ! 0) \<and>
   getAlexaPresetSession exampleTermStore ''key-1'' \<noteq> None \<and>
   getAlexaPresetSession
     (snd (saveSession exampleTermStore ''key-1'' ''term1'' (Some 19723) (Some 19782) False
             ''0.zz99'' 5000)) ''key-1'' = None"
proof -
  have a1: "0 < length (getAvailableSessions exampleTermStore ''key-1'')"
    by (simp add: exampleTerm_sessions)
  have a2: "toLowerCase (name (getAvailableSessions exampleTermStore ''key-1'' ! 0)) =
      toLowerCase ''term1''"
    by (simp add: exampleTerm_sessions toLowerCase_def lowerChar_def)
  have a3: "\<forall>j<0. \<not> saveMatches ''term1'' (generateSessionCode ''term1'' ''0.zz99'')
      (getAvailableSessions exampleTermStore ''key-1'' ! j)"
    by simp
  have a4: "isSelected (getAvailableSessions exampleTermStore ''key-1'' ! 0)"
    by (simp add: exampleTerm_sessions)
  have a5: "\<forall>j<length (getAvailableSessions exampleTermStore ''key-1''). j \<noteq> 0 \<longrightarrow>
      \<not> isSelected (getAvailableSessions exampleTermStore ''key-1'' ! j)"
    by (simp add: exampleTerm_sessions)
  have before: "getAlexaPresetSession exampleTermStore ''key-1'' \<noteq> None"
    by (simp add: getAlexaPresetSession_def exampleTerm_sessions)
  note inst = saveSession_drops_preset [OF a1 a2 a3 a4 a5, of "Some 19723" "Some 19782" 5000,
      unfolded Let_def]
  from inst a2 a4 before show ?thesis by blast
qed

text \<open>
  Without the condition on the earlier sessions the claim fails: of the two sessions
  named Fall the second is the preset; saving Fall without the preset flag overwrites the
  first, and the second is still the preset.
\<close>

theorem saveSession_preset_kept_counterexample:
  "getAlexaPresetSession exampleTwoFallStore ''key-1'' =
     Some \<lparr>name = ''Fall'', code = ''fall9zz9'', startDate = Some 19967, endDate = Some 20088,
           createdAt = 1000, isSelected = True\<rparr> \<and>
   getAlexaPresetSession
     (snd (saveSession exampleTwoFallStore ''key-1'' ''Fall'' (Some 20332) (Some 20453) False
             ''0.k3f9'' 5000)) ''key-1'' =
     Some \<lparr>name = ''Fall'', code = ''fall9zz9'', startDate = Some 19967, endDate = Some 20088,
           createdAt = 1000, isSelected = True\<rparr> \<and>
   getAvailableSessions
     (snd (saveSession exampleTwoFallStore ''key-1'' ''Fall'' (Some 20332) (Some 20453) False
             ''0.k3f9'' 5000)) ''key-1'' =
     [\<lparr>name = ''Fall'', code = ''fallk3f9'', startDate = Some 20332, endDate = Some 20453,
        createdAt = 5000, isSelected = False\<rparr>,
      \<lparr>name = ''Fall'', code = ''fall9zz9'', startDate = Some 19967, endDate = Some 20088,
        createdAt = 1000, isSelected = True\<rparr>]"
proof -
  have idx: "findIndex (saveMatches ''Fall'' (generateSessionCode ''Fall'' ''0.k3f9''))
      (getAvailableSessions exampleTwoFallStore ''key-1'') = Some 0"
    by (simp add: exampleTwoFall_sessions saveMatches_def)
  have stored: "getAvailableSessions
     (snd (saveSession exampleTwoFallStore ''key-1'' ''Fall'' (Some 20332) (Some 20453) False
             ''0.k3f9'' 5000)) ''key-1'' =
     [\<lparr>name = ''Fall'', code = ''fallk3f9'', startDate = Some 20332, endDate = Some 20453,
        createdAt = 5000, isSelected = False\<rparr>,
      \<lparr>name = ''Fall'', code = ''fall9zz9'', startDate = Some 19967, endDate = Some 20088,
        createdAt = 1000, isSelected = True\<rparr>]"
    by (simp add: saveSession_stored_match [OF idx])
       (simp add: exampleTwoFall_sessions code_Fall sessionDataOf_def sortByCreatedAtDesc_def)
  show ?thesis
    by (simp add: getAlexaPresetSession_def stored exampleTwoFall_sessions)
qed

lemma exampleNameLikeCode_setPreset:
  "setAlexaPresetSession exampleNameLikeCodeStore ''key-1'' ''fall1ab2'' =
     (Inr \<lparr>name = ''Fall1ab2'', code = ''fall1ab2x7q2'', startDate = Some 19601,
           endDate = Some 19722, createdAt = 2000, isSelected = False\<rparr>,
      updateUserData exampleNameLikeCodeStore ''key-1''
        (sessionsUpdate (selectByCode ''fall1ab2x7q2''
           (getAvailableSessions exampleNameLikeCodeStore ''key-1''))))"
  by (simp add: setAlexaPresetSession_def exampleNameLikeCode_sessions)
     (simp add: exampleNameLikeCodeStore_def getUserData_def emptyDoc_def presetMatches_def
        toLowerCase_def lowerChar_def)

subsection \<open>Resolution of an identifier\<close>

text \<open>
  C7. An identifier should resolve to the session of that code before any session of
  that name. \<open>setAlexaPresetSession\<close> does not do so. In this list the first session
  is named Fall1ab2 and the second has the code \<open>fall1ab2\<close>. A search by code finds
  the second session, as the first step of the select-session handler does;
  \<open>setAlexaPresetSession\<close> with the identifier \<open>fall1ab2\<close> finds the first
  session, by its name, and selects it. The handler answers that Fall was set, and the
  stored list has the first session selected.
\<close>

theorem setPreset_name_match_shadows_code:
  "List.find (\<lambda>s. code s = ''fall1ab2'')
      (getAvailableSessions exampleNameLikeCodeStore ''key-1'') =
     Some \<lparr>name = ''Fall'', code = ''fall1ab2'', startDate = Some 19967, endDate = Some 20088,
           createdAt = 1000, isSelected = False\<rparr> \<and>
   fst (setAlexaPresetSession exampleNameLikeCodeStore ''key-1'' ''fall1ab2'') =
     Inr \<lparr>name = ''Fall1ab2'', code = ''fall1ab2x7q2'', startDate = Some 19601,
           endDate = Some 19722, createdAt = 2000, isSelected = False\<rparr> \<and>
   map isSelected (getAvailableSessions
      (snd (setAlexaPresetSession exampleNameLikeCodeStore ''key-1'' ''fall1ab2'')) ''key-1'') =
     [True, False] \<and>
   fst (SelectSessionIntent_handle exampleNameLikeCodeStore ''key-1'' (Some ''fall1ab2'')) =
     SessionSelected ''Fall'' \<and>
   map isSelected (getAvailableSessions
      (snd (SelectSessionIntent_handle exampleNameLikeCodeStore ''key-1'' (Some ''fall1ab2'')))
      ''key-1'') = [True, False]"
proof -
  have f: "List.find (\<lambda>s. code s = ''fall1ab2'')
      (getAvailableSessions exampleNameLikeCodeStore ''key-1'') =
     Some \<lparr>name = ''Fall'', code = ''fall1ab2'', startDate = Some 19967, endDate = Some 20088,
           createdAt = 1000, isSelected = False\<rparr>"
    by (simp add: exampleNameLikeCode_sessions)
  have sel: "map isSelected (getAvailableSessions
      (snd (setAlexaPresetSession exampleNameLikeCodeStore ''key-1'' ''fall1ab2'')) ''key-1'') =
     [True, False]"
    by (simp add: exampleNameLikeCode_setPreset getAvailableSessions_update)
       (simp add: exampleNameLikeCode_sessions selectByCode_def)
  have h: "SelectSessionIntent_handle exampleNameLikeCodeStore ''key-1'' (Some ''fall1ab2'') =
      (SessionSelected ''Fall'',
       snd (setAlexaPresetSession exampleNameLikeCodeStore ''key-1'' ''fall1ab2''))"
    by (simp add: SelectSessionIntent_handle_def f)
  from f sel show ?thesis
    by (simp add: h exampleNameLikeCode_setPreset)
qed

lemma exampleTwoFall_setPreset_name:
  "setAlexaPresetSession exampleTwoFallStore ''key-1'' ''Fall'' =
     (Inr \<lparr>name = ''Fall'', code = ''fall1ab2'', startDate = Some 19601, endDate = Some 19722,
           createdAt = 2000, isSelected = False\<rparr>,
      updateUserData exampleTwoFallStore ''key-1''
        (sessionsUpdate (selectByCode ''fall1ab2''
           (getAvailableSessions exampleTwoFallStore ''key-1''))))"
  by (simp add: setAlexaPresetSession_def exampleTwoFall_sessions)
     (simp add: exampleTwoFallStore_def getUserData_def emptyDoc_def presetMatches_def
        toLowerCase_def lowerChar_def)

text \<open>
  X3. In the select-session handler, a name that is no session's code and is the
  lower-cased name of two or more sessions is answered with the number of matches, their
  date ranges and their codes, and nothing is written.
\<close>

theorem selectSession_ambiguous_reported:
  assumes "nm \<noteq> []"
    and "List.find (\<lambda>s. code s = nm) (getAvailableSessions st k) = None"
    and "2 \<le> length (filter (\<lambda>s. toLowerCase (name s) = toLowerCase nm)
                        (getAvailableSessions st k))"
  shows "SelectSessionIntent_handle st k (Some nm) =
     (AmbiguousSessions
        (length (filter (\<lambda>s. toLowerCase (name s) = toLowerCase nm) (getAvailableSessions st k)))
        nm
        (map (\<lambda>s. (startDate s, endDate s))
           (filter (\<lambda>s. toLowerCase (name s) = toLowerCase nm) (getAvailableSessions st k)))
        (map code
           (filter (\<lambda>s. toLowerCase (name s) = toLowerCase nm) (getAvailableSessions st k))),
      st)"
  using assms by (simp add: SelectSessionIntent_handle_def Let_def)

text \<open>
  C8. A name that matches several sessions, and no code, should be reported with all
  matching codes and date ranges. The select-session handler does so;
  \<open>setAlexaPresetSession\<close> does not. With the two sessions named Fall, no session has
  the code \<open>Fall\<close> and both match the name: \<open>setAlexaPresetSession\<close> with the
  identifier Fall returns the first and selects it, while the select-session handler
  reports both codes and both date ranges and writes nothing.
\<close>

theorem setPreset_picks_first_of_two_names:
  "length (filter (\<lambda>s. toLowerCase (name s) = toLowerCase ''Fall'')
      (getAvailableSessions exampleTwoFallStore ''key-1'')) = 2 \<and>
   List.find (\<lambda>s. code s = ''Fall'') (getAvailableSessions exampleTwoFallStore ''key-1'') = None \<and>
   fst (setAlexaPresetSession exampleTwoFallStore ''key-1'' ''Fall'') =
     Inr \<lparr>name = ''Fall'', code = ''fall1ab2'', startDate = Some 19601, endDate = Some 19722,
           createdAt = 2000, isSelected = False\<rparr> \<and>
   map isSelected (getAvailableSessions
      (snd (setAlexaPresetSession exampleTwoFallStore ''key-1'' ''Fall'')) ''key-1'') =
     [True, False] \<and>
   SelectSessionIntent_handle exampleTwoFallStore ''key-1'' (Some ''Fall'') =
     (AmbiguousSessions 2 ''Fall'' [(Some 19601, Some 19722), (Some 19967, Some 20088)]
        [''fall1ab2'', ''fall9zz9''], exampleTwoFallStore)"
proof -
  have two: "length (filter (\<lambda>s. toLowerCase (name s) = toLowerCase ''Fall'')
      (getAvailableSessions exampleTwoFallStore ''key-1'')) = 2"
    by (simp add: exampleTwoFall_sessions)
  have nocode: "List.find (\<lambda>s. code s = ''Fall'')
      (getAvailableSessions exampleTwoFallStore ''key-1'') = None"
    by (simp add: exampleTwoFall_sessions)
  have sel: "map isSelected (getAvailableSessions
      (snd (setAlexaPresetSession exampleTwoFallStore ''key-1'' ''Fall'')) ''key-1'') =
     [True, False]"
    by (simp add: exampleTwoFall_setPreset_name getAvailableSessions_update)
       (simp add: exampleTwoFall_sessions selectByCode_def)
  have amb: "SelectSessionIntent_handle exampleTwoFallStore ''key-1'' (Some ''Fall'') =
     (AmbiguousSessions 2 ''Fall'' [(Some 19601, Some 19722), (Some 19967, Some 20088)]
        [''fall1ab2'', ''fall9zz9''], exampleTwoFallStore)"
    by (simp add: SelectSessionIntent_handle_def nocode Let_def)
       (simp add: exampleTwoFall_sessions)
  from two nocode sel amb show ?thesis
    by (simp add: exampleTwoFall_setPreset_name)
qed

theorem selectSession_ambiguous_reported_witness:
  "''Fall'' \<noteq> [] \<and>
   List.find (\<lambda>s. code s = ''Fall'') (getAvailableSessions exampleTwoFallStore ''key-1'') = None \<and>
   SelectSessionIntent_handle exampleTwoFallStore ''key-1'' (Some ''Fall'') =
     (AmbiguousSessions 2 ''Fall'' [(Some 19601, Some 19722), (Some 19967, Some 20088)]
        [''fall1ab2'', ''fall9zz9''], exampleTwoFallStore)"
proof -
  have a1: "''Fall'' \<noteq> []" by simp
  have a2: "List.find (\<lambda>s. code s = ''Fall'')
      (getAvailableSessions exampleTwoFallStore ''key-1'') = None"
    by (simp add: exampleTwoFall_sessions)
  have a3: "2 \<le> length (filter (\<lambda>s. toLowerCase (name s) = toLowerCase ''Fall'')
      (getAvailableSessions exampleTwoFallStore ''key-1''))"
    by (simp add: exampleTwoFall_sessions)
  from selectSession_ambiguous_reported [OF a1 a2 a3] a1 a2 show ?thesis
    by (simp add: exampleTwoFall_sessions)
qed

subsection \<open>Clearing the preset\<close>

text \<open>
  X4. \<open>clearAlexaPresetSession\<close> stores every session unselected and otherwise
  unchanged; no preset remains.
\<close>

theorem clearPreset_none_selected:
  "getAvailableSessions (clearAlexaPresetSession st k) k =
     map (\<lambda>s. s\<lparr>isSelected := False\<rparr>) (getAvailableSessions st k) \<and>
   getAlexaPresetSession (clearAlexaPresetSession st k) k = None"
proof -
  have stored: "getAvailableSessions (clearAlexaPresetSession st k) k =
     map (\<lambda>s. s\<lparr>isSelected := False\<rparr>) (getAvailableSessions st k)"
    by (simp add: clearAlexaPresetSession_def getAvailableSessions_update)
  have "list_all (\<lambda>s. \<not> isSelected s) (getAvailableSessions (clearAlexaPresetSession st k) k)"
    by (simp add: stored list_all_iff)
  then have "getAlexaPresetSession (clearAlexaPresetSession st k) k = None"
    unfolding getAlexaPresetSession_def by (rule find_isSelected_None)
  with stored show ?thesis by simp
qed

theorem clearPreset_none_selected_witness:
  "getAlexaPresetSession exampleTwoFallStore ''key-1'' \<noteq> None \<and>
   getAlexaPresetSession (clearAlexaPresetSession exampleTwoFallStore ''key-1'') ''key-1'' = None"
  using clearPreset_none_selected [of exampleTwoFallStore "''key-1''"]
  by (simp add: getAlexaPresetSession_def exampleTwoFall_sessions)

end
